theory Spec2Isabelle
  imports Main "HOL-Library.Word" "HOL-Library.Char_ord" "HOL-Library.List_Lexorder"
begin

unbundle bit_operations_syntax

section \<open>Status values and machine integers\<close>

text \<open>
  The error codes of \<^verbatim>\<open>tensorflow::error::Code\<close> and the \<^verbatim>\<open>Status\<close> value every
  operation returns: a code and a message. \<^verbatim>\<open>int64\<close> and \<^verbatim>\<open>uint64\<close> are 64-bit
  words; the signed reading is \<open>sint\<close>, the unsigned one \<open>unat\<close>.
\<close>

datatype Code =
    OK | CANCELLED | UNKNOWN | INVALID_ARGUMENT | DEADLINE_EXCEEDED | NOT_FOUND
  | ALREADY_EXISTS | PERMISSION_DENIED | UNAUTHENTICATED | RESOURCE_EXHAUSTED
  | FAILED_PRECONDITION | ABORTED | OUT_OF_RANGE | UNIMPLEMENTED | INTERNAL
  | UNAVAILABLE | DATA_LOSS

record Status =
  code :: Code
  error_message :: string

type_synonym int64 = "64 word"
type_synonym uint64 = "64 word"

definition Status_OK :: Status where
  "Status_OK = \<lparr>code = OK, error_message = []\<rparr>"

definition ok :: "Status \<Rightarrow> bool" where
  "ok s = (code s = OK)"

text \<open>\<^verbatim>\<open>strings::StrCat\<close> renders an unsigned number in decimal.\<close>

fun dec :: "nat \<Rightarrow> string" where
  "dec n = (if n < 10 then [''0123456789'' ! n]
            else dec (n div 10) @ [''0123456789'' ! (n mod 10)])"

declare dec.simps [simp del]

section \<open>The retry envelope (retrying\_utils.cc)\<close>

definition kMaxRetries :: nat where
  "kMaxRetries = 10"

definition kMaximumBackoffMicroseconds :: int64 where
  "kMaximumBackoffMicroseconds = 32000000"

definition IsRetriable :: "Code set \<Rightarrow> Code \<Rightarrow> bool" where
  "IsRetriable retriable_errors c = (c \<in> retriable_errors)"

text \<open>\<^verbatim>\<open>std::min\<close> on two \<^verbatim>\<open>int64\<close>: \<^verbatim>\<open>(b < a) ? b : a\<close>, compared as signed.\<close>

definition std_min :: "int64 \<Rightarrow> int64 \<Rightarrow> int64" where
  "std_min a b = (if b <s a then b else a)"

text \<open>
  The delay computed before retry number \<open>retries\<close> (0-indexed), from the value \<open>rnd\<close>
  that \<^verbatim>\<open>random::New64()\<close> returned:
  \<^verbatim>\<open>std::min(initial << retries, kMaximumBackoffMicroseconds) + rnd % 1000000\<close>.
  The shift is the 64-bit one (bits shifted out are lost), the remainder is unsigned.
\<close>

definition delay_micros :: "int64 \<Rightarrow> nat \<Rightarrow> uint64 \<Rightarrow> int64" where
  "delay_micros initial_delay_microseconds retries rnd =
     std_min (push_bit retries initial_delay_microseconds) kMaximumBackoffMicroseconds
       + rnd mod 1000000"

text \<open>
  What the loop does between two attempts: with a positive initial delay it draws a random
  number and sleeps for \<open>delay_micros\<close>; otherwise it sleeps for 0 microseconds.
  \<open>new64\<close> stands for \<^verbatim>\<open>random::New64\<close> and \<open>sleep_usec\<close> for the sleep callback,
  both acting on the state \<open>'w\<close> of the world.
\<close>

definition backoff ::
  "int64 \<Rightarrow> (int64 \<Rightarrow> 'w \<Rightarrow> 'w) \<Rightarrow> ('w \<Rightarrow> uint64 \<times> 'w) \<Rightarrow> nat \<Rightarrow> 'w \<Rightarrow> 'w" where
  "backoff initial_delay_microseconds sleep_usec new64 retries w =
     (if 0 <s initial_delay_microseconds
      then (case new64 w of (rnd, w') \<Rightarrow>
              sleep_usec (delay_micros initial_delay_microseconds retries rnd) w')
      else sleep_usec 0 w)"

definition AbortedError :: "(Status \<Rightarrow> string) \<Rightarrow> Status \<Rightarrow> Status" where
  "AbortedError ToString status =
     \<lparr>code = ABORTED,
      error_message = ''All '' @ dec kMaxRetries @
        '' retry attempts failed. The last failure: '' @ ToString status\<rparr>"

text \<open>
  \<^verbatim>\<open>RetryingUtils::CallWithRetries\<close> (the overload with \<open>sleep_usec\<close>): the
  \<^verbatim>\<open>while (true)\<close> loop, with the local \<open>retries\<close> as an argument. \<open>f\<close> is the wrapped
  call, a function of the world; \<open>ToString\<close> stands for \<^verbatim>\<open>Status::ToString\<close>.
\<close>

function CallWithRetries_loop ::
  "('w \<Rightarrow> Status \<times> 'w) \<Rightarrow> int64 \<Rightarrow> (int64 \<Rightarrow> 'w \<Rightarrow> 'w) \<Rightarrow> Code set \<Rightarrow>
   ('w \<Rightarrow> uint64 \<times> 'w) \<Rightarrow> (Status \<Rightarrow> string) \<Rightarrow> nat \<Rightarrow> 'w \<Rightarrow> Status \<times> 'w" where
  "CallWithRetries_loop f initial_delay_microseconds sleep_usec retriable_errors
       new64 ToString retries w =
     (case f w of (status, w1) \<Rightarrow>
        if \<not> IsRetriable retriable_errors (code status) then (status, w1)
        else if retries \<ge> kMaxRetries then (AbortedError ToString status, w1)
        else CallWithRetries_loop f initial_delay_microseconds sleep_usec retriable_errors
               new64 ToString (retries + 1)
               (backoff initial_delay_microseconds sleep_usec new64 retries w1))"
  by pat_completeness auto
termination
  by (relation "measure (\<lambda>(f, i, s, r, n, t, retries, w). kMaxRetries + 1 - retries)") auto

declare CallWithRetries_loop.simps [simp del]

definition CallWithRetries ::
  "('w \<Rightarrow> Status \<times> 'w) \<Rightarrow> int64 \<Rightarrow> (int64 \<Rightarrow> 'w \<Rightarrow> 'w) \<Rightarrow> Code set \<Rightarrow>
   ('w \<Rightarrow> uint64 \<times> 'w) \<Rightarrow> (Status \<Rightarrow> string) \<Rightarrow> 'w \<Rightarrow> Status \<times> 'w" where
  "CallWithRetries f initial_delay_microseconds sleep_usec retriable_errors new64 ToString w =
     CallWithRetries_loop f initial_delay_microseconds sleep_usec retriable_errors
       new64 ToString 0 w"

text \<open>
  \<^verbatim>\<open>RetryingUtils::DeleteWithRetries\<close>: the lambda captures the local \<open>is_retried\<close> by
  reference, so the wrapped call runs on the pair of the flag and the world. It calls the
  overload of \<open>CallWithRetries\<close> that sleeps with \<^verbatim>\<open>Env::Default()->SleepForMicroseconds\<close>,
  here \<open>sleep_usec\<close>. The sleep and the random source do not touch the flag.
\<close>

definition delete_lambda ::
  "('w \<Rightarrow> Status \<times> 'w) \<Rightarrow> bool \<times> 'w \<Rightarrow> Status \<times> bool \<times> 'w" where
  "delete_lambda delete_func = (\<lambda>(is_retried, w).
     case delete_func w of (status, w') \<Rightarrow>
       if is_retried \<and> code status = NOT_FOUND then (Status_OK, is_retried, w')
       else (status, True, w'))"

definition DeleteWithRetries ::
  "('w \<Rightarrow> Status \<times> 'w) \<Rightarrow> int64 \<Rightarrow> (int64 \<Rightarrow> 'w \<Rightarrow> 'w) \<Rightarrow> Code set \<Rightarrow>
   ('w \<Rightarrow> uint64 \<times> 'w) \<Rightarrow> (Status \<Rightarrow> string) \<Rightarrow> 'w \<Rightarrow> Status \<times> 'w" where
  "DeleteWithRetries delete_func initial_delay_microseconds sleep_usec retriable_errors
       new64 ToString w =
     (case CallWithRetries (delete_lambda delete_func) initial_delay_microseconds
             (\<lambda>d (b, w). (b, sleep_usec d w)) retriable_errors
             (\<lambda>(b, w). case new64 w of (r, w') \<Rightarrow> (r, b, w')) ToString (False, w)
      of (status, _, w') \<Rightarrow> (status, w'))"

text \<open>
  The attempts of a run, for stating what the envelope returns: \<open>state_before k\<close> is the
  world in which attempt \<open>k\<close> (0-indexed) of \<open>f\<close> starts when every earlier attempt was
  retried, and \<open>attempt k\<close> is the status that attempt returns.
\<close>

fun state_before ::
  "('w \<Rightarrow> Status \<times> 'w) \<Rightarrow> int64 \<Rightarrow> (int64 \<Rightarrow> 'w \<Rightarrow> 'w) \<Rightarrow> ('w \<Rightarrow> uint64 \<times> 'w) \<Rightarrow>
   nat \<Rightarrow> 'w \<Rightarrow> 'w" where
  "state_before f i sl nw 0 w = w"
| "state_before f i sl nw (Suc k) w =
     backoff i sl nw k (snd (f (state_before f i sl nw k w)))"

definition attempt ::
  "('w \<Rightarrow> Status \<times> 'w) \<Rightarrow> int64 \<Rightarrow> (int64 \<Rightarrow> 'w \<Rightarrow> 'w) \<Rightarrow> ('w \<Rightarrow> uint64 \<times> 'w) \<Rightarrow>
   nat \<Rightarrow> 'w \<Rightarrow> Status" where
  "attempt f i sl nw k w = fst (f (state_before f i sl nw k w))"

text \<open>A scripted call for concrete runs: it returns the statuses of a list in order.\<close>

definition scripted :: "Status list \<Rightarrow> Status \<times> Status list" where
  "scripted l = (case l of [] \<Rightarrow> (Status_OK, []) | s # r \<Rightarrow> (s, r))"


text \<open>
  \<^verbatim>\<open>DeleteWithRetries\<close> as the specification words it: the status of attempt \<open>k\<close>
  (0-indexed) with a \<open>NOT_FOUND\<close> on any attempt after the first rewritten to \<open>OK\<close>.
\<close>

definition absorb_not_found :: "nat \<Rightarrow> Status \<Rightarrow> Status" where
  "absorb_not_found k status =
     (if 0 < k \<and> code status = NOT_FOUND then Status_OK else status)"

section \<open>The AWS SDK as the file system uses it\<close>

text \<open>
  The S3 client and the transfer manager belong to the AWS SDK, not to this repository. The
  file system is modelled over an interface of them: every request is a function of the
  world \<open>'w\<close> that returns an outcome and the new world. An outcome is a result or an
  error with its exception name, message and HTTP response code.
\<close>

record AWSError =
  ExceptionName :: string
  Message :: string
  ResponseCode :: nat

datatype 'a Outcome = Success 'a | Failure AWSError

definition REQUESTED_RANGE_NOT_SATISFIABLE :: nat where
  "REQUESTED_RANGE_NOT_SATISFIABLE = 416"

text \<open>
  The body of a \<^verbatim>\<open>GetObject\<close> result; its content length is the number of bytes of the
  body, as a \<^verbatim>\<open>long long\<close>.
\<close>

record GetObjectResult =
  Body :: string

definition GetContentLength :: "GetObjectResult \<Rightarrow> int64" where
  "GetContentLength r = of_nat (length (Body r))"

record HeadObjectResult =
  ContentLength :: int64
  HeadLastModified :: int64

text \<open>An entry of a listing: the key and \<^verbatim>\<open>GetLastModified().Millis()\<close>.\<close>

record ListedObject =
  Key :: string
  LastModified :: int64

datatype TransferStatus =
  NOT_STARTED | QUEUED | IN_PROGRESS | CANCELED | FAILED | COMPLETED | TRANSFER_ABORTED

record TransferHandle =
  GetBucketName :: string
  GetKey :: string
  GetStatus :: TransferStatus
  GetLastError :: AWSError
  GetFailedParts :: nat

text \<open>
  The spill file (\<^verbatim>\<open>Aws::Utils::TempFile\<close>, an \<^verbatim>\<open>fstream\<close>): its bytes, the put position
  and whether the stream is good. A write on a good stream overwrites at the put position
  and extends the file; on a stream that is not good it does nothing. \<^verbatim>\<open>tellp\<close> is -1 on
  a stream that is not good, and \<^verbatim>\<open>seekp\<close> to a negative offset fails.
\<close>

record TempFile =
  file_data :: string
  put_pos :: nat
  stream_good :: bool

definition TempFile_new :: TempFile where
  "TempFile_new = \<lparr>file_data = [], put_pos = 0, stream_good = True\<rparr>"

definition stream_write :: "string \<Rightarrow> TempFile \<Rightarrow> TempFile" where
  "stream_write d t =
     (if stream_good t
      then t\<lparr>file_data := take (put_pos t) (file_data t) @ d @
                            drop (put_pos t + length d) (file_data t),
             put_pos := put_pos t + length d\<rparr>
      else t)"

definition tellp :: "TempFile \<Rightarrow> int" where
  "tellp t = (if stream_good t then int (put_pos t) else - 1)"

definition stream_clear :: "TempFile \<Rightarrow> TempFile" where
  "stream_clear t = t\<lparr>stream_good := True\<rparr>"

definition seekp :: "int \<Rightarrow> TempFile \<Rightarrow> TempFile" where
  "seekp off t = (if off < 0 then t\<lparr>stream_good := False\<rparr> else t\<lparr>put_pos := nat off\<rparr>)"

text \<open>
  The requests the file system issues. \<open>GetObject bucket key first last\<close> carries the range
  header \<^verbatim>\<open>bytes=first-last\<close> as its two numbers; \<open>ListObjects bucket prefix max_keys\<close>
  returns the contents of the listing. \<open>UploadFile\<close> and \<open>RetryUpload\<close> are the transfer
  manager's calls followed by \<^verbatim>\<open>WaitUntilFinished\<close>; they read the spill file and may
  move its position and change its state.
\<close>

record 'w S3Client =
  GetObject :: "string \<Rightarrow> string \<Rightarrow> uint64 \<Rightarrow> uint64 \<Rightarrow> 'w \<Rightarrow> GetObjectResult Outcome \<times> 'w"
  HeadObject :: "string \<Rightarrow> string \<Rightarrow> 'w \<Rightarrow> HeadObjectResult Outcome \<times> 'w"
  HeadBucket :: "string \<Rightarrow> 'w \<Rightarrow> unit Outcome \<times> 'w"
  ListObjects :: "string \<Rightarrow> string \<Rightarrow> nat \<Rightarrow> 'w \<Rightarrow> ListedObject list Outcome \<times> 'w"
  DeleteObject :: "string \<Rightarrow> string \<Rightarrow> 'w \<Rightarrow> unit Outcome \<times> 'w"
  UploadFile :: "TempFile \<Rightarrow> string \<Rightarrow> string \<Rightarrow> 'w \<Rightarrow> TransferHandle \<times> TempFile \<times> 'w"
  RetryUpload :: "TempFile \<Rightarrow> TransferHandle \<Rightarrow> 'w \<Rightarrow> TransferHandle \<times> TempFile \<times> 'w"

section \<open>The S3 file system (s3\_file\_system.cc)\<close>

definition kS3MultiPartCopyPartSize :: uint64 where
  "kS3MultiPartCopyPartSize = 5 * 1024 * 1024"

definition kUploadRetries :: nat where
  "kUploadRetries = 5"

definition err :: "Code \<Rightarrow> string \<Rightarrow> Status" where
  "err c msg = \<lparr>code = c, error_message = msg\<rparr>"

subsection \<open>Paths\<close>

text \<open>
  Modelled from the spec: \<^verbatim>\<open>io::ParseURI\<close> is not under src/. A path is a URI
  \<^verbatim>\<open>s3://<bucket>/<key>\<close>: the scheme is a letter followed by letters, digits and dots,
  up to \<^verbatim>\<open>://\<close>; the host runs to the first slash and the path is the rest, with its leading
  slash. A string with no scheme is a path with an empty scheme and host.
\<close>

definition is_letter :: "char \<Rightarrow> bool" where
  "is_letter c = (c \<in> set ''abcdefghijklmnopqrstuvwxyzABCDEFGHIJKLMNOPQRSTUVWXYZ'')"

definition is_letter_digit_dot :: "char \<Rightarrow> bool" where
  "is_letter_digit_dot c = (is_letter c \<or> c \<in> set ''0123456789.'')"

definition ParseURI :: "string \<Rightarrow> string \<times> string \<times> string" where
  "ParseURI uri =
     (let scheme = takeWhile is_letter_digit_dot uri;
          rest = dropWhile is_letter_digit_dot uri
      in if scheme \<noteq> [] \<and> is_letter (hd scheme) \<and> take 3 rest = ''://''
         then (scheme, takeWhile (\<lambda>c. c \<noteq> CHR ''/'') (drop 3 rest),
                       dropWhile (\<lambda>c. c \<noteq> CHR ''/'') (drop 3 rest))
         else ([], [], uri))"

text \<open>\<^verbatim>\<open>str_util::ConsumePrefix(&s, "/")\<close>: one leading slash is removed.\<close>

definition ConsumePrefix_slash :: "string \<Rightarrow> string" where
  "ConsumePrefix_slash s = (case s of [] \<Rightarrow> [] | c # r \<Rightarrow> if c = CHR ''/'' then r else s)"

text \<open>
  \<open>ParseS3Path\<close> returns the error status or the bucket and the object. Its callers pass
  the addresses of two locals, so the null check never fires.
\<close>

definition ParseS3Path :: "string \<Rightarrow> bool \<Rightarrow> Status + string \<times> string" where
  "ParseS3Path fname empty_object_ok =
     (case ParseURI fname of (scheme, bucketp, objectp) \<Rightarrow>
        if scheme \<noteq> ''s3''
        then Inl (err INVALID_ARGUMENT (''S3 path doesn't start with 's3://': '' @ fname))
        else if bucketp = [] \<or> bucketp = ''.''
        then Inl (err INVALID_ARGUMENT (''S3 path doesn't contain a bucket name: '' @ fname))
        else let object = ConsumePrefix_slash objectp
             in if \<not> empty_object_ok \<and> object = []
                then Inl (err INVALID_ARGUMENT
                       (''S3 path doesn't contain an object name: '' @ fname))
                else Inr (bucketp, object))"

text \<open>
  \<^verbatim>\<open>if (s.back() != '/') s.push_back('/')\<close>. The code applies it to non-empty strings
  only (\<^verbatim>\<open>back()\<close> of an empty string is undefined).
\<close>

definition with_slash :: "string \<Rightarrow> string" where
  "with_slash s = (if s \<noteq> [] \<and> last s = CHR ''/'' then s else s @ ''/'')"

subsection \<open>S3RandomAccessFile\<close>

text \<open>
  \<open>Read\<close> on the file bound to \<open>bucket\<close> and \<open>object\<close>: the range is
  \<^verbatim>\<open>bytes=offset-(offset + n - 1)\<close> in unsigned 64-bit arithmetic. It returns the status
  and \<^verbatim>\<open>*result\<close>, which the \<open>Unknown\<close> branch leaves as the caller passed it. On success
  \<open>n\<close> becomes the content length and the result is the first \<open>n\<close> bytes read from the body.
\<close>

definition Read ::
  "'w S3Client \<Rightarrow> string \<Rightarrow> string \<Rightarrow> uint64 \<Rightarrow> uint64 \<Rightarrow> string \<Rightarrow> 'w \<Rightarrow>
   (Status \<times> string) \<times> 'w" where
  "Read c bucket object offset n result w =
     (case GetObject c bucket object offset (offset + n - 1) w of
        (Failure error, w') \<Rightarrow>
          if ResponseCode error = REQUESTED_RANGE_NOT_SATISFIABLE
          then ((err OUT_OF_RANGE ''Read less bytes than requested'', []), w')
          else ((err UNKNOWN (ExceptionName error @ Message error), result), w')
      | (Success r, w') \<Rightarrow>
          (let n' = (GetContentLength r :: uint64)
           in ((Status_OK, take (unat n') (Body r)), w')))"

subsection \<open>S3WritableFile\<close>

record S3WritableFile =
  file_bucket :: string
  file_object :: string
  sync_needed :: bool
  outfile :: "TempFile option"

text \<open>
  The members are named without the trailing underscore of the source
  (\<^verbatim>\<open>bucket_\<close>, \<^verbatim>\<open>object_\<close>, \<^verbatim>\<open>sync_needed_\<close>, \<^verbatim>\<open>outfile_\<close>).
  The constructor: \<open>sync_needed\<close> starts as true and the spill file is created empty.
  (The name of the spill file, with its rolling counter, plays no part in what follows.)
\<close>

definition S3WritableFile_new :: "string \<Rightarrow> string \<Rightarrow> S3WritableFile" where
  "S3WritableFile_new bucket object =
     \<lparr>file_bucket = bucket, file_object = object, sync_needed = True, outfile = Some TempFile_new\<rparr>"

definition Append :: "string \<Rightarrow> S3WritableFile \<Rightarrow> Status \<times> S3WritableFile" where
  "Append d f =
     (case outfile f of
        None \<Rightarrow> (err FAILED_PRECONDITION ''The internal temporary file is not writable.'', f)
      | Some t \<Rightarrow>
          (let t' = stream_write d t;
               f' = f\<lparr>sync_needed := True, outfile := Some t'\<rparr>
           in if \<not> stream_good t'
              then (err INTERNAL ''Could not append to the internal temporary file.'', f')
              else (Status_OK, f')))"

text \<open>
  The loop of \<open>Sync\<close>:
  \<^verbatim>\<open>while (handle->GetStatus() == FAILED && retries++ < kUploadRetries)\<close>.
\<close>

function RetryUpload_loop ::
  "'w S3Client \<Rightarrow> TempFile \<Rightarrow> TransferHandle \<Rightarrow> nat \<Rightarrow> 'w \<Rightarrow> TransferHandle \<times> TempFile \<times> 'w"
  where
  "RetryUpload_loop c stream handle retries w =
     (if GetStatus handle = FAILED \<and> retries < kUploadRetries
      then (case RetryUpload c stream handle w of
              (handle', stream', w') \<Rightarrow> RetryUpload_loop c stream' handle' (retries + 1) w')
      else (handle, stream, w))"
  by pat_completeness auto
termination
  by (relation "measure (\<lambda>(c, stream, handle, retries, w). kUploadRetries - retries)") auto

declare RetryUpload_loop.simps [simp del]

definition Sync ::
  "'w S3Client \<Rightarrow> S3WritableFile \<Rightarrow> 'w \<Rightarrow> (Status \<times> S3WritableFile) \<times> 'w" where
  "Sync c f w =
     (case outfile f of
        None \<Rightarrow>
          ((err FAILED_PRECONDITION ''The internal temporary file is not writable.'', f), w)
      | Some t \<Rightarrow>
          if \<not> sync_needed f then ((Status_OK, f), w)
          else
            (let offset = tellp t
             in case UploadFile c t (file_bucket f) (file_object f) w of (handle0, t0, w0) \<Rightarrow>
                case RetryUpload_loop c t0 handle0 0 w0 of (handle, t1, w1) \<Rightarrow>
                  if GetStatus handle \<noteq> COMPLETED
                  then ((err UNKNOWN
                           (ExceptionName (GetLastError handle) @ '': '' @
                            dec (GetFailedParts handle) @ '' failed parts. '' @
                            Message (GetLastError handle)),
                         f\<lparr>outfile := Some t1\<rparr>), w1)
                  else ((Status_OK, f\<lparr>outfile := Some (seekp offset (stream_clear t1))\<rparr>),
                        w1)))"

definition Flush ::
  "'w S3Client \<Rightarrow> S3WritableFile \<Rightarrow> 'w \<Rightarrow> (Status \<times> S3WritableFile) \<times> 'w" where
  "Flush c f w = Sync c f w"

definition Close ::
  "'w S3Client \<Rightarrow> S3WritableFile \<Rightarrow> 'w \<Rightarrow> (Status \<times> S3WritableFile) \<times> 'w" where
  "Close c f w =
     (case outfile f of
        None \<Rightarrow> ((Status_OK, f), w)
      | Some t \<Rightarrow>
          (case Sync c f w of ((s, f'), w') \<Rightarrow>
             if \<not> ok s then ((s, f'), w')
             else ((Status_OK, f'\<lparr>outfile := None\<rparr>), w')))"

subsection \<open>S3FileSystem\<close>

text \<open>
  The modification time is \<^verbatim>\<open>GetLastModified().Millis() * 1e6\<close>, stored in an
  \<^verbatim>\<open>int64\<close>: the \<^verbatim>\<open>int64\<close> of milliseconds is converted to a double, multiplied by the
  double \<^verbatim>\<open>1e6\<close>, and the product is converted back. On integers a double holds 53
  significant bits: \<open>double_exponent a 0\<close> is the number of low bits of \<open>a\<close> that do not fit,
  and \<open>round_to_double x\<close> is the double nearest to the integer \<open>x\<close>, a tie going to the even
  significand (the default rounding of IEEE 754). The conversion of an \<^verbatim>\<open>int64\<close> and the
  multiplication both round their exact result this way, and \<open>1e6\<close> is a double itself.
  The conversion back is exact for a product within the range of \<^verbatim>\<open>int64\<close>; outside of
  it C++ leaves the result undefined, and the model takes the value that x86-64 gives,
  \<open>-2\<^sup>6\<^sup>3\<close>.
\<close>

function double_exponent :: "nat \<Rightarrow> nat \<Rightarrow> nat" where
  "double_exponent a e = (if a < 2 ^ (53 + e) then e else double_exponent a (e + 1))"
  by pat_completeness auto
termination
proof (relation "measure (\<lambda>(a, e). a + 1 - 2 ^ (53 + e))")
  show "wf (measure (\<lambda>(a, e). a + 1 - 2 ^ (53 + e)))" by simp
next
  fix a e :: nat
  assume "\<not> a < 2 ^ (53 + e)"
  then have "(2::nat) ^ (53 + e) \<le> a" by simp
  moreover have "(2::nat) ^ (53 + (e + 1)) = 2 * 2 ^ (53 + e)"
    by (simp only: power_add) simp
  moreover have "(0::nat) < 2 ^ (53 + e)" by simp
  ultimately have "a + 1 - 2 ^ (53 + (e + 1)) < a + 1 - 2 ^ (53 + e)" by linarith
  then show "((a, e + 1), (a, e)) \<in> measure (\<lambda>(a, e). a + 1 - 2 ^ (53 + e))" by simp
qed

declare double_exponent.simps [simp del]

definition round_to_double :: "int \<Rightarrow> int" where
  "round_to_double x =
     (let a = nat \<bar>x\<bar>;
          e = double_exponent a 0;
          q = a div 2 ^ e;
          r = a mod 2 ^ e;
          q' = (if 2 ^ e < 2 * r \<or> (2 * r = 2 ^ e \<and> odd q) then q + 1 else q)
      in sgn x * int (q' * 2 ^ e))"

definition double_to_int64 :: "int \<Rightarrow> int64" where
  "double_to_int64 v = (if - (2 ^ 63) \<le> v \<and> v < 2 ^ 63 then word_of_int v else - (2 ^ 63))"

definition times_1e6 :: "int64 \<Rightarrow> int64" where
  "times_1e6 millis =
     double_to_int64 (round_to_double (round_to_double (sint millis) * 1000000))"

text \<open>
  \<^verbatim>\<open>FileStatistics\<close> with the values of a default-constructed one; its member
  \<^verbatim>\<open>length\<close> is \<open>stat_length\<close> here.
\<close>

record FileStatistics =
  stat_length :: int64
  mtime_nsec :: int64
  is_directory :: bool

definition FileStatistics_new :: FileStatistics where
  "FileStatistics_new = \<lparr>stat_length = - 1, mtime_nsec = 0, is_directory = False\<rparr>"

definition NewRandomAccessFile :: "string \<Rightarrow> Status + string \<times> string" where
  "NewRandomAccessFile fname = ParseS3Path fname False"

definition NewWritableFile :: "string \<Rightarrow> Status + S3WritableFile" where
  "NewWritableFile fname =
     (case ParseS3Path fname False of
        Inl e \<Rightarrow> Inl e
      | Inr (bucket, object) \<Rightarrow> Inr (S3WritableFile_new bucket object))"

text \<open>
  \<open>Stat\<close> writes through the caller's \<^verbatim>\<open>FileStatistics\<close>; every error path leaves it
  untouched, so the model returns either the error or the statistics as written.
\<close>

definition Stat ::
  "'w S3Client \<Rightarrow> string \<Rightarrow> FileStatistics \<Rightarrow> 'w \<Rightarrow>
   (Status + FileStatistics) \<times> 'w" where
  "Stat c fname stats w =
     (case ParseS3Path fname True of
        Inl e \<Rightarrow> (Inl e, w)
      | Inr (bucket, object) \<Rightarrow>
          if object = [] then
            (case HeadBucket c bucket w of
               (Failure error, w1) \<Rightarrow>
                 (Inl (err UNKNOWN (ExceptionName error @ '': '' @ Message error)), w1)
             | (Success u, w1) \<Rightarrow> (Inr (stats\<lparr>stat_length := 0, is_directory := True\<rparr>), w1))
          else
            (case HeadObject c bucket object w of (headObjectOutcome, w1) \<Rightarrow>
               let (found1, stats1) =
                     (case headObjectOutcome of
                        Success r \<Rightarrow>
                          (True, stats\<lparr>stat_length := ContentLength r, is_directory := False,
                                       mtime_nsec := times_1e6 (HeadLastModified r)\<rparr>)
                      | Failure error \<Rightarrow> (False, stats));
                   prefix = with_slash object
               in case ListObjects c bucket prefix 1 w1 of (listObjectsOutcome, w2) \<Rightarrow>
                  let (found2, stats2) =
                        (case listObjectsOutcome of
                           Success listObjects \<Rightarrow>
                             if length listObjects > 0
                             then (True, stats1\<lparr>stat_length := 0, is_directory := True,
                                     mtime_nsec := times_1e6 (LastModified (listObjects ! 0))\<rparr>)
                             else (found1, stats1)
                         | Failure error \<Rightarrow> (found1, stats1))
                  in if \<not> found2
                     then (Inl (err NOT_FOUND (''Object '' @ fname @ '' does not exist'')), w2)
                     else (Inr stats2, w2)))"

definition FileExists ::
  "'w S3Client \<Rightarrow> string \<Rightarrow> 'w \<Rightarrow> Status \<times> 'w" where
  "FileExists c fname w =
     (case Stat c fname FileStatistics_new w of
        (Inl e, w') \<Rightarrow> (e, w')
      | (Inr stats, w') \<Rightarrow> (Status_OK, w'))"

definition GetFileSize ::
  "'w S3Client \<Rightarrow> string \<Rightarrow> 'w \<Rightarrow> (Status + uint64) \<times> 'w" where
  "GetFileSize c fname w =
     (case Stat c fname FileStatistics_new w of
        (Inl e, w') \<Rightarrow> (Inl e, w')
      | (Inr stats, w') \<Rightarrow> (Inr (stat_length stats), w'))"

text \<open>
  The read-only memory region: the buffer of \<open>size\<close> bytes and its length (\<open>fsize\<close>
  below). The model keeps the bytes that \<open>Read\<close> put into the buffer, up to that size.
\<close>

record S3ReadOnlyMemoryRegion =
  region_data :: string
  region_length :: uint64

definition NewReadOnlyMemoryRegionFromFile ::
  "'w S3Client \<Rightarrow> string \<Rightarrow> 'w \<Rightarrow>
   (Status + S3ReadOnlyMemoryRegion) \<times> 'w" where
  "NewReadOnlyMemoryRegionFromFile c fname w =
     (case GetFileSize c fname w of
        (Inl e, w1) \<Rightarrow> (Inl e, w1)
      | (Inr fsize, w1) \<Rightarrow>
          (case NewRandomAccessFile fname of
             Inl e \<Rightarrow> (Inl e, w1)
           | Inr (bucket, object) \<Rightarrow>
               (case Read c bucket object 0 fsize [] w1 of ((s, piece), w2) \<Rightarrow>
                  if \<not> ok s then (Inl s, w2)
                  else (Inr \<lparr>region_data = take (unat fsize) piece, region_length = fsize\<rparr>,
                        w2))))"

definition DeleteFile :: "'w S3Client \<Rightarrow> string \<Rightarrow> 'w \<Rightarrow> Status \<times> 'w" where
  "DeleteFile c fname w =
     (case ParseS3Path fname False of
        Inl e \<Rightarrow> (e, w)
      | Inr (bucket, object) \<Rightarrow>
          (case DeleteObject c bucket object w of
             (Failure error, w') \<Rightarrow>
               (err UNKNOWN (ExceptionName error @ '': '' @ Message error), w')
           | (Success u, w') \<Rightarrow> (Status_OK, w')))"

definition CreateDir ::
  "'w S3Client \<Rightarrow> string \<Rightarrow> 'w \<Rightarrow> Status \<times> 'w" where
  "CreateDir c dirname w =
     (case ParseS3Path dirname True of
        Inl e \<Rightarrow> (e, w)
      | Inr (bucket, object) \<Rightarrow>
          if object = [] then
            (case HeadBucket c bucket w of
               (Failure error, w1) \<Rightarrow>
                 (err NOT_FOUND (''The bucket '' @ bucket @ '' was not found.''), w1)
             | (Success u, w1) \<Rightarrow> (Status_OK, w1))
          else
            (let filename = with_slash dirname
             in case FileExists c filename w of (s, w1) \<Rightarrow>
                if \<not> ok s then
                  (case NewWritableFile filename of
                     Inl e \<Rightarrow> (e, w1)
                   | Inr file \<Rightarrow>
                       (case Close c file w1 of ((s', file'), w2) \<Rightarrow>
                          if \<not> ok s' then (s', w2) else (Status_OK, w2)))
                else (Status_OK, w1)))"

definition DeleteDir :: "'w S3Client \<Rightarrow> string \<Rightarrow> 'w \<Rightarrow> Status \<times> 'w" where
  "DeleteDir c dirname w =
     (case ParseS3Path dirname False of
        Inl e \<Rightarrow> (e, w)
      | Inr (bucket, object) \<Rightarrow>
          (let prefix = with_slash object
           in case ListObjects c bucket prefix 2 w of
                (Success contents, w1) \<Rightarrow>
                  if length contents > 1 \<or>
                     (length contents = 1 \<and> Key (contents ! 0) \<noteq> prefix)
                  then (err INTERNAL ''Cannot delete a non-empty directory.'', w1)
                  else if length contents = 1 \<and> Key (contents ! 0) = prefix
                  then DeleteFile c (with_slash dirname) w1
                  else (Status_OK, w1)
              | (Failure error, w1) \<Rightarrow> (Status_OK, w1)))"

subsection \<open>MultiPartCopy\<close>

text \<open>
  The multipart requests of the S3 client, and \<^verbatim>\<open>StringUtils::URLEncode\<close> of the SDK.
  \<open>CreateMultipartUpload\<close> returns the upload id and \<open>UploadPartCopy\<close> the ETag of the part.
\<close>

record UploadPartCopyRequest =
  TargetBucket :: string
  TargetKey :: string
  CopySource :: string
  CopySourceRange :: string
  PartNumber :: int
  UploadId :: string

record CompletedPart =
  CompletedPartNumber :: int
  ETag :: string

record 'w MultipartClient =
  CreateMultipartUpload :: "string \<Rightarrow> string \<Rightarrow> 'w \<Rightarrow> string Outcome \<times> 'w"
  UploadPartCopy :: "UploadPartCopyRequest \<Rightarrow> 'w \<Rightarrow> string Outcome \<times> 'w"
  CompleteMultipartUpload ::
    "string \<Rightarrow> string \<Rightarrow> string \<Rightarrow> CompletedPart list \<Rightarrow> 'w \<Rightarrow> unit Outcome \<times> 'w"
  URLEncode :: "string \<Rightarrow> string"

text \<open>
  \<open>MultiPartCopy\<close> does not compile as it stands; the model reads it with the names
  brought into line: \<^verbatim>\<open>num_parts\<close> is \<^verbatim>\<open>numParts\<close>, \<^verbatim>\<open>iPartNumber\<close> is
  \<^verbatim>\<open>partNumber\<close>, \<^verbatim>\<open>pS3Client\<close> is the S3 client, and the undeclared \<^verbatim>\<open>fname\<close> passed
  to \<open>Stat\<close> is a parameter. The function has no final \<^verbatim>\<open>return\<close>: the result \<open>None\<close>
  stands for control reaching its end.

  The inner loop \<^verbatim>\<open>while (retryCount > 0) { retryCount--; ... }\<close> for one part, started
  with \<^verbatim>\<open>retryCount = 3\<close>. It has no \<^verbatim>\<open>break\<close>: after a part copy that succeeded, or that
  failed with attempts left, the completed part is added and the loop goes on. The start
  position is computed in \<^verbatim>\<open>size_t\<close>, and the range prints it twice. A failed outcome
  has a default result, whose ETag is empty.
\<close>

fun copy_part_attempts ::
  "'w MultipartClient \<Rightarrow> string \<Rightarrow> string \<Rightarrow> string \<Rightarrow> int \<Rightarrow> nat \<Rightarrow> string \<Rightarrow>
   CompletedPart list \<Rightarrow> 'w \<Rightarrow> (Status option \<times> string \<times> CompletedPart list) \<times> 'w" where
  "copy_part_attempts mc target_bucket target_key uploadID partNumber 0 source_path parts w =
     ((None, source_path, parts), w)"
| "copy_part_attempts mc target_bucket target_key uploadID partNumber (Suc retryCount)
       source_path parts w =
     (let startPos = (word_of_int (partNumber - 1) :: uint64) * kS3MultiPartCopyPartSize;
          endPos = startPos + kS3MultiPartCopyPartSize - 1;
          range = ''bytes='' @ dec (unat startPos) @ dec (unat startPos) @ ''-'' @
                  dec (unat endPos);
          source_path' = URLEncode mc source_path;
          request = \<lparr>TargetBucket = target_bucket, TargetKey = target_key,
                      CopySource = source_path', CopySourceRange = range,
                      PartNumber = partNumber, UploadId = uploadID\<rparr>
      in case UploadPartCopy mc request w of
           (Failure error, w') \<Rightarrow>
             if retryCount > 0
             then copy_part_attempts mc target_bucket target_key uploadID partNumber retryCount
                    source_path'
                    (parts @ [\<lparr>CompletedPartNumber = partNumber, ETag = []\<rparr>]) w'
             else ((Some (err UNKNOWN (ExceptionName error @ '': '' @ Message error)),
                    source_path', parts), w')
         | (Success sETag, w') \<Rightarrow>
             copy_part_attempts mc target_bucket target_key uploadID partNumber retryCount
               source_path'
               (parts @ [\<lparr>CompletedPartNumber = partNumber, ETag = sETag\<rparr>]) w')"

text \<open>
  The loop \<^verbatim>\<open>for (int partNumber = 0; partNumber < numParts; partNumber++)\<close>. The
  \<^verbatim>\<open>CompleteMultipartUpload\<close> request stands inside it, after the attempts of each part.
\<close>

function copy_parts ::
  "'w MultipartClient \<Rightarrow> string \<Rightarrow> string \<Rightarrow> string \<Rightarrow> int \<Rightarrow> int \<Rightarrow> string \<Rightarrow>
   CompletedPart list \<Rightarrow> 'w \<Rightarrow> Status option \<times> 'w" where
  "copy_parts mc target_bucket target_key uploadID partNumber numParts source_path parts w =
     (if partNumber < numParts
      then (case copy_part_attempts mc target_bucket target_key uploadID partNumber 3
                   source_path parts w of
              ((Some s, source_path', parts'), w1) \<Rightarrow> (Some s, w1)
            | ((None, source_path', parts'), w1) \<Rightarrow>
                (case CompleteMultipartUpload mc target_bucket target_key uploadID parts' w1 of
                   (Failure error, w2) \<Rightarrow>
                     (Some (err UNKNOWN (ExceptionName error @ '': '' @ Message error)), w2)
                 | (Success u, w2) \<Rightarrow>
                     copy_parts mc target_bucket target_key uploadID (partNumber + 1) numParts
                       source_path' parts' w2))
      else (None, w))"
  by pat_completeness auto
termination
  by (relation "measure (\<lambda>(mc, tb, tk, u, partNumber, numParts, sp, ps, w).
                  nat (numParts - partNumber))") auto

declare copy_parts.simps [simp del]

text \<open>
  \<^verbatim>\<open>int numParts = stats.length / kS3MultiPartCopyPartSize\<close>: an unsigned 64-bit
  division, truncated to \<^verbatim>\<open>int\<close>.
\<close>

definition MultiPartCopy ::
  "'w S3Client \<Rightarrow> 'w MultipartClient \<Rightarrow> string \<Rightarrow> string \<Rightarrow> string \<Rightarrow>
   string \<Rightarrow> 'w \<Rightarrow> Status option \<times> 'w" where
  "MultiPartCopy c mc fname source_path target_bucket target_key w =
     (case CreateMultipartUpload mc target_bucket target_key w of
        (Failure error, w1) \<Rightarrow>
          (Some (err UNKNOWN (ExceptionName error @ '': '' @ Message error)), w1)
      | (Success uploadID, w1) \<Rightarrow>
          (case Stat c fname FileStatistics_new w1 of
             (Inl e, w2) \<Rightarrow> (Some e, w2)
           | (Inr stats, w2) \<Rightarrow>
               (let numParts =
                      sint (ucast (stat_length stats div kS3MultiPartCopyPartSize) :: 32 word)
                in copy_parts mc target_bucket target_key uploadID 0 numParts source_path []
                     w2)))"

text \<open>
  The part sizes the specification asks for, in its words: \<open>ceil(L / part_size)\<close> parts,
  part \<open>i\<close> (from 1) covering the bytes from \<open>(i - 1) * part_size\<close> to
  \<open>min(i * part_size - 1, L - 1)\<close>.
\<close>

definition spec_parts :: "nat \<Rightarrow> nat \<Rightarrow> (nat \<times> nat \<times> nat) list" where
  "spec_parts L part_size =
     map (\<lambda>i. (i, (i - 1) * part_size, min (i * part_size - 1) (L - 1)))
       [1 ..< (L + part_size - 1) div part_size + 1]"

section \<open>A reference object store\<close>

text \<open>
  Modelled from the spec: the object store is ``a flat key \<open>\<rightarrow>\<close> blob namespace with HTTP
  semantics'', here an association list from bucket and key to the stored bytes and their
  modification time, in buckets that exist. It is a model of the service behind the SDK,
  used where a property speaks of what is stored:
  \<^item> an upload that completes stores the whole spill file under the bucket and key;
  \<^item> a ranged GET returns the bytes of the range that exist, answers 416 when the first
    byte is at or past the end, and ignores a range whose last byte lies before its first;
  \<^item> a listing returns, in key order, at most \<open>max_keys\<close> objects whose key starts with
    the prefix;
  \<^item> a delete succeeds whether or not the key exists.
  Each request first consumes the head of \<open>faults\<close>, if there is one: \<open>Some e\<close> makes the
  request fail with the error \<open>e\<close> and changes nothing else.
\<close>

record StoredObject =
  obj_body :: string
  obj_modified :: int64

record Store =
  buckets :: "string list"
  objects :: "((string \<times> string) \<times> StoredObject) list"
  faults :: "AWSError option list"
  clock :: int64

definition next_fault :: "Store \<Rightarrow> AWSError option \<times> Store" where
  "next_fault w = (case faults w of [] \<Rightarrow> (None, w) | f # fs \<Rightarrow> (f, w\<lparr>faults := fs\<rparr>))"

definition http_error :: "nat \<Rightarrow> string \<Rightarrow> AWSError" where
  "http_error rc name = \<lparr>ExceptionName = name, Message = [], ResponseCode = rc\<rparr>"

definition store_GetObject ::
  "string \<Rightarrow> string \<Rightarrow> uint64 \<Rightarrow> uint64 \<Rightarrow> Store \<Rightarrow> GetObjectResult Outcome \<times> Store" where
  "store_GetObject b k first_byte last_byte w =
     (case next_fault w of
        (Some e, w') \<Rightarrow> (Failure e, w')
      | (None, w') \<Rightarrow>
          (case map_of (objects w') (b, k) of
             None \<Rightarrow> (Failure (http_error 404 ''NoSuchKey''), w')
           | Some ob \<Rightarrow>
               if unat last_byte < unat first_byte then (Success \<lparr>Body = obj_body ob\<rparr>, w')
               else if length (obj_body ob) \<le> unat first_byte
               then (Failure (http_error 416 ''InvalidRange''), w')
               else (Success \<lparr>Body = take (unat last_byte - unat first_byte + 1)
                                        (drop (unat first_byte) (obj_body ob))\<rparr>, w')))"

definition store_HeadObject ::
  "string \<Rightarrow> string \<Rightarrow> Store \<Rightarrow> HeadObjectResult Outcome \<times> Store" where
  "store_HeadObject b k w =
     (case next_fault w of
        (Some e, w') \<Rightarrow> (Failure e, w')
      | (None, w') \<Rightarrow>
          (case map_of (objects w') (b, k) of
             None \<Rightarrow> (Failure (http_error 404 []), w')
           | Some ob \<Rightarrow>
               (Success \<lparr>ContentLength = of_nat (length (obj_body ob)),
                         HeadLastModified = obj_modified ob\<rparr>, w')))"

definition store_HeadBucket :: "string \<Rightarrow> Store \<Rightarrow> unit Outcome \<times> Store" where
  "store_HeadBucket b w =
     (case next_fault w of
        (Some e, w') \<Rightarrow> (Failure e, w')
      | (None, w') \<Rightarrow>
          if b \<in> set (buckets w') then (Success (), w')
          else (Failure (http_error 404 []), w'))"

definition listing :: "string \<Rightarrow> string \<Rightarrow> Store \<Rightarrow> ListedObject list" where
  "listing b p w =
     map (\<lambda>e. \<lparr>Key = snd (fst e), LastModified = obj_modified (snd e)\<rparr>)
       (sort_key (\<lambda>e. snd (fst e))
          (filter (\<lambda>e. fst (fst e) = b \<and> take (length p) (snd (fst e)) = p) (objects w)))"

definition store_ListObjects ::
  "string \<Rightarrow> string \<Rightarrow> nat \<Rightarrow> Store \<Rightarrow> ListedObject list Outcome \<times> Store" where
  "store_ListObjects b p max_keys w =
     (case next_fault w of
        (Some e, w') \<Rightarrow> (Failure e, w')
      | (None, w') \<Rightarrow>
          if b \<in> set (buckets w') then (Success (take max_keys (listing b p w')), w')
          else (Failure (http_error 404 ''NoSuchBucket''), w'))"

definition store_DeleteObject :: "string \<Rightarrow> string \<Rightarrow> Store \<Rightarrow> unit Outcome \<times> Store" where
  "store_DeleteObject b k w =
     (case next_fault w of
        (Some e, w') \<Rightarrow> (Failure e, w')
      | (None, w') \<Rightarrow>
          (Success (), w'\<lparr>objects := filter (\<lambda>e. fst e \<noteq> (b, k)) (objects w')\<rparr>))"

definition store_put :: "string \<Rightarrow> string \<Rightarrow> string \<Rightarrow> Store \<Rightarrow> Store" where
  "store_put b k body w =
     w\<lparr>objects := ((b, k), \<lparr>obj_body = body, obj_modified = clock w\<rparr>) #
                    filter (\<lambda>e. fst e \<noteq> (b, k)) (objects w)\<rparr>"

text \<open>
  An upload reads the spill file to its end, which leaves the stream at the end of the
  file and no longer good.
\<close>

definition store_UploadFile ::
  "TempFile \<Rightarrow> string \<Rightarrow> string \<Rightarrow> Store \<Rightarrow> TransferHandle \<times> TempFile \<times> Store" where
  "store_UploadFile t b k w =
     (let t' = t\<lparr>put_pos := length (file_data t), stream_good := False\<rparr>
      in case next_fault w of
           (Some e, w') \<Rightarrow>
             (\<lparr>GetBucketName = b, GetKey = k, GetStatus = FAILED, GetLastError = e,
               GetFailedParts = 1\<rparr>, t', w')
         | (None, w') \<Rightarrow>
             if b \<in> set (buckets w')
             then (\<lparr>GetBucketName = b, GetKey = k, GetStatus = COMPLETED,
                    GetLastError = http_error 200 [], GetFailedParts = 0\<rparr>,
                   t', store_put b k (file_data t) w')
             else (\<lparr>GetBucketName = b, GetKey = k, GetStatus = FAILED,
                    GetLastError = http_error 404 ''NoSuchBucket'', GetFailedParts = 1\<rparr>,
                   t', w'))"

definition store_RetryUpload ::
  "TempFile \<Rightarrow> TransferHandle \<Rightarrow> Store \<Rightarrow> TransferHandle \<times> TempFile \<times> Store" where
  "store_RetryUpload t h w = store_UploadFile t (GetBucketName h) (GetKey h) w"

definition store_client :: "Store S3Client" where
  "store_client =
     \<lparr>GetObject = store_GetObject, HeadObject = store_HeadObject,
      HeadBucket = store_HeadBucket, ListObjects = store_ListObjects,
      DeleteObject = store_DeleteObject, UploadFile = store_UploadFile,
      RetryUpload = store_RetryUpload\<rparr>"

section \<open>Worlds of the concrete scenarios\<close>

text \<open>A store with one bucket \<open>b\<close> that holds the 10-byte object \<open>k\<close>.\<close>

definition ten_byte_store :: Store where
  "ten_byte_store =
     \<lparr>buckets = [''b''],
      objects = [((''b'', ''k''), \<lparr>obj_body = ''0123456789'', obj_modified = 7\<rparr>)],
      faults = [], clock = 9\<rparr>"

text \<open>A store with one empty bucket \<open>b\<close>, and the same store whose next request fails.\<close>

definition empty_store :: Store where
  "empty_store = \<lparr>buckets = [''b''], objects = [], faults = [], clock = 9\<rparr>"

definition failing_store :: Store where
  "failing_store =
     \<lparr>buckets = [''b''], objects = [],
      faults = [Some \<lparr>ExceptionName = ''Timeout'', Message = ''no answer'', ResponseCode = 0\<rparr>],
      clock = 9\<rparr>"

text \<open>
  A store in which the file \<open>k\<close> and an object under the prefix \<open>k/\<close> both exist.
\<close>

definition file_and_directory_store :: Store where
  "file_and_directory_store =
     \<lparr>buckets = [''b''],
      objects = [((''b'', ''k''), \<lparr>obj_body = ''file'', obj_modified = 5\<rparr>),
                 ((''b'', ''k/child''), \<lparr>obj_body = ''x'', obj_modified = 6\<rparr>)],
      faults = [], clock = 9\<rparr>"

text \<open>The empty store whose next two requests fail, and the store after \<open>hi\<close> was written
  to \<open>k\<close>.\<close>

definition flaky_store :: Store where
  "flaky_store =
     \<lparr>buckets = [''b''], objects = [],
      faults = [Some \<lparr>ExceptionName = ''Timeout'', Message = ''no answer'', ResponseCode = 0\<rparr>,
                Some \<lparr>ExceptionName = ''Timeout'', Message = ''no answer'', ResponseCode = 0\<rparr>],
      clock = 9\<rparr>"

definition hi_store :: Store where
  "hi_store =
     \<lparr>buckets = [''b''],
      objects = [((''b'', ''k''), \<lparr>obj_body = ''hi'', obj_modified = 9\<rparr>)],
      faults = [], clock = 9\<rparr>"

text \<open>
  A writable file for \<open>k\<close> after \<open>Append\<close> of one byte and a first \<open>Sync\<close> on the empty
  store, and a list of six faults: enough to fail an upload and its five retries.
\<close>

definition synced_once :: "(Status \<times> S3WritableFile) \<times> Store" where
  "synced_once =
     Sync store_client (snd (Append ''a'' (S3WritableFile_new ''b'' ''k''))) empty_store"

definition six_faults :: "AWSError option list" where
  "six_faults =
     replicate 6 (Some \<lparr>ExceptionName = ''Timeout'', Message = ''no answer'', ResponseCode = 0\<rparr>)"

text \<open>The empty store after the directory marker \<open>d/\<close> was created.\<close>

definition marker_store :: Store where
  "marker_store =
     \<lparr>buckets = [''b''],
      objects = [((''b'', ''d/''), \<lparr>obj_body = [], obj_modified = 9\<rparr>)],
      faults = [], clock = 9\<rparr>"

text \<open>
  Clients for a run of \<open>MultiPartCopy\<close>: the world is the list of the part-copy requests
  issued so far. Every request succeeds; the source object has \<open>L\<close> bytes and nothing
  lies under its key.
\<close>

definition sized_source :: "uint64 \<Rightarrow> (UploadPartCopyRequest list) S3Client" where
  "sized_source L =
     \<lparr>GetObject = (\<lambda>b k first_byte last_byte w. (Success \<lparr>Body = []\<rparr>, w)),
      HeadObject = (\<lambda>b k w. (Success \<lparr>ContentLength = L, HeadLastModified = 0\<rparr>, w)),
      HeadBucket = (\<lambda>b w. (Success (), w)),
      ListObjects = (\<lambda>b p n w. (Success [], w)),
      DeleteObject = (\<lambda>b k w. (Success (), w)),
      UploadFile = (\<lambda>t b k w.
        (\<lparr>GetBucketName = b, GetKey = k, GetStatus = COMPLETED,
          GetLastError = \<lparr>ExceptionName = [], Message = [], ResponseCode = 200\<rparr>,
          GetFailedParts = 0\<rparr>, t, w)),
      RetryUpload = (\<lambda>t h w. (h, t, w))\<rparr>"

definition logging_copies :: "(UploadPartCopyRequest list) MultipartClient" where
  "logging_copies =
     \<lparr>CreateMultipartUpload = (\<lambda>b k w. (Success ''upload-id'', w)),
      UploadPartCopy = (\<lambda>r w. (Success ''etag'', w @ [r])),
      CompleteMultipartUpload = (\<lambda>b k u ps w. (Success (), w)),
      URLEncode = (\<lambda>s. s)\<rparr>"

text \<open>
  A store in which the object under the prefix \<open>k/\<close> was modified at 1600000000123
  milliseconds, a time of the year 2020.
\<close>

definition recent_store :: Store where
  "recent_store =
     \<lparr>buckets = [''b''],
      objects = [((''b'', ''k/child''), \<lparr>obj_body = ''x'', obj_modified = 1600000000123\<rparr>)],
      faults = [], clock = 9\<rparr>"

section \<open>Notions used to state what an upload does to the reference store\<close>

text \<open>
  \<open>uploaded b k d w w'\<close>: the store \<open>w'\<close> is \<open>w\<close> after the bytes \<open>d\<close> were stored
  under bucket \<open>b\<close> and key \<open>k\<close>, pending faults aside. \<open>unchanged w w'\<close>: the two
  stores hold the same objects.
\<close>

definition uploaded :: "string \<Rightarrow> string \<Rightarrow> string \<Rightarrow> Store \<Rightarrow> Store \<Rightarrow> bool" where
  "uploaded b k d w w' =
     (objects w' = ((b, k), \<lparr>obj_body = d, obj_modified = clock w\<rparr>) #
                     filter (\<lambda>e. fst e \<noteq> (b, k)) (objects w) \<and>
      buckets w' = buckets w \<and> clock w' = clock w \<and> b \<in> set (buckets w))"

definition unchanged :: "Store \<Rightarrow> Store \<Rightarrow> bool" where
  "unchanged w w' = (objects w' = objects w \<and> buckets w' = buckets w \<and> clock w' = clock w)"

text \<open>No object of bucket \<open>b\<close> has a key that starts with \<open>k\<close> followed by a slash.\<close>

definition nothing_under :: "string \<Rightarrow> string \<Rightarrow> Store \<Rightarrow> bool" where
  "nothing_under b k w =
     (filter (\<lambda>e. fst (fst e) = b \<and> take (length (k @ ''/'')) (snd (fst e)) = k @ ''/'')
        (objects w) = [])"

section \<open>Properties of the retry envelope\<close>

lemma dec_kMaxRetries: "dec kMaxRetries = ''10''"
  by (simp add: dec.simps kMaxRetries_def)

lemma loop_unfold_retry:
  assumes "f w = (status, w1)" "IsRetriable retr (code status)" "retries < kMaxRetries"
  shows "CallWithRetries_loop f i sl retr nw ts retries w =
         CallWithRetries_loop f i sl retr nw ts (retries + 1) (backoff i sl nw retries w1)"
  using assms by (subst CallWithRetries_loop.simps) simp

lemma loop_unfold_done:
  assumes "f w = (status, w1)" "\<not> IsRetriable retr (code status)"
  shows "CallWithRetries_loop f i sl retr nw ts retries w = (status, w1)"
  using assms by (subst CallWithRetries_loop.simps) simp

lemma loop_unfold_abort:
  assumes "f w = (status, w1)" "IsRetriable retr (code status)" "retries \<ge> kMaxRetries"
  shows "CallWithRetries_loop f i sl retr nw ts retries w = (AbortedError ts status, w1)"
  using assms by (subst CallWithRetries_loop.simps) simp

lemma loop_skip:
  "r \<le> kMaxRetries \<Longrightarrow> (\<And>j. j < r \<Longrightarrow> IsRetriable retr (code (attempt f i sl nw j w))) \<Longrightarrow>
   CallWithRetries_loop f i sl retr nw ts 0 w =
   CallWithRetries_loop f i sl retr nw ts r (state_before f i sl nw r w)"
proof (induction r)
  case 0
  then show ?case by simp
next
  case (Suc k)
  obtain status w1 where fw: "f (state_before f i sl nw k w) = (status, w1)"
    by (cases "f (state_before f i sl nw k w)")
  have retr: "IsRetriable retr (code status)"
    using Suc.prems(2) [of k] fw by (simp add: attempt_def)
  have "CallWithRetries_loop f i sl retr nw ts 0 w =
        CallWithRetries_loop f i sl retr nw ts k (state_before f i sl nw k w)"
    using Suc by simp
  also have "\<dots> = CallWithRetries_loop f i sl retr nw ts (k + 1) (backoff i sl nw k w1)"
    using loop_unfold_retry [where f = f, OF fw retr] Suc.prems(1) by simp
  finally show ?case using fw by simp
qed

lemma CallWithRetries_first_final:
  assumes "k \<le> kMaxRetries"
    and "\<And>j. j < k \<Longrightarrow> IsRetriable retr (code (attempt f i sl nw j w))"
    and "\<not> IsRetriable retr (code (attempt f i sl nw k w))"
  shows "CallWithRetries f i sl retr nw ts w = f (state_before f i sl nw k w)"
proof -
  obtain status w1 where fw: "f (state_before f i sl nw k w) = (status, w1)"
    by (cases "f (state_before f i sl nw k w)")
  have "\<not> IsRetriable retr (code status)" using assms(3) fw by (simp add: attempt_def)
  from loop_unfold_done [where f = f, OF fw this] loop_skip [OF assms(1), of retr f i sl nw w ts] assms(2) fw
  show ?thesis by (simp add: CallWithRetries_def)
qed

lemma CallWithRetries_exhausted:
  assumes "\<And>j. j \<le> kMaxRetries \<Longrightarrow> IsRetriable retr (code (attempt f i sl nw j w))"
  shows "CallWithRetries f i sl retr nw ts w =
         (AbortedError ts (attempt f i sl nw kMaxRetries w),
          snd (f (state_before f i sl nw kMaxRetries w)))"
proof -
  obtain status w1 where fw: "f (state_before f i sl nw kMaxRetries w) = (status, w1)"
    by (cases "f (state_before f i sl nw kMaxRetries w)")
  have "IsRetriable retr (code status)" using assms [of kMaxRetries] fw by (simp add: attempt_def)
  from loop_unfold_abort [where f = f, OF fw this] loop_skip [of kMaxRetries retr f i sl nw w ts] assms fw
  show ?thesis by (simp add: CallWithRetries_def attempt_def)
qed

lemma sint_jitter: "sint ((rnd :: 64 word) mod 1000000) = uint rnd mod 1000000"
proof -
  have u: "uint (rnd mod 1000000) = uint rnd mod 1000000" by (simp add: uint_mod)
  have "0 \<le> uint rnd mod 1000000" "uint rnd mod 1000000 < 1000000" by simp_all
  then have "signed_take_bit 63 (uint rnd mod 1000000) = uint rnd mod 1000000"
    by (intro signed_take_bit_int_eq_self) simp_all
  then show ?thesis by (simp add: sint_uint u)
qed

lemma sint_kMax: "sint kMaximumBackoffMicroseconds = 32000000"
  by (simp add: kMaximumBackoffMicroseconds_def)

lemma sint_std_min: "sint (std_min a b) = min (sint a) (sint b)"
  by (simp add: std_min_def word_sless_alt min_def)

lemma sint_delay_micros:
  "sint (delay_micros initial k rnd) =
     min (sint (push_bit k initial :: 64 word)) 32000000 + uint rnd mod 1000000"
proof -
  let ?m = "std_min (push_bit k initial) kMaximumBackoffMicroseconds"
  let ?j = "rnd mod 1000000"
  have m: "sint ?m = min (sint (push_bit k initial :: 64 word)) 32000000"
    by (simp add: sint_std_min sint_kMax)
  have lo: "- (2 ^ 63) \<le> sint ?m" using sint_ge [of ?m] by simp
  have hi: "sint ?m \<le> 32000000" using m by simp
  have j: "0 \<le> uint rnd mod 1000000" "uint rnd mod 1000000 < 1000000" by simp_all
  have "signed_take_bit 63 (sint ?m + sint ?j) = sint ?m + sint ?j"
    using lo hi j by (intro signed_take_bit_int_eq_self) (simp_all add: sint_jitter)
  then have "sint (?m + ?j) = sint ?m + sint ?j" by (simp add: sint_word_ariths)
  then show ?thesis unfolding delay_micros_def using m by (simp add: sint_jitter)
qed



lemma sint_push_bit_exact:
  assumes "0 < sint (initial :: 64 word)" "sint initial * 2 ^ k < 2 ^ 63"
  shows "sint (push_bit k initial) = sint initial * 2 ^ k"
proof -
  have eq: "push_bit k initial = (word_of_int (sint initial * 2 ^ k) :: 64 word)"
    by (simp add: push_bit_eq_mult)
  have "sint (word_of_int (sint initial * 2 ^ k) :: 64 word) =
        signed_take_bit 63 (sint initial * 2 ^ k)"
    by (simp only: sint_sbintrunc') simp
  also have "\<dots> = sint initial * 2 ^ k"
  proof (rule signed_take_bit_int_eq_self)
    have "0 \<le> sint initial * 2 ^ k" using assms(1) by simp
    moreover have "- (2 ^ 63) \<le> (0::int)" by simp
    ultimately show "- (2 ^ 63) \<le> sint initial * 2 ^ k" by (rule order_trans [rotated])
    show "sint initial * 2 ^ k < 2 ^ 63" by (rule assms(2))
  qed
  finally show ?thesis by (simp only: eq)
qed


lemma backoff_trivial: "backoff i (\<lambda>d w. w) (\<lambda>w. (0, w)) k w = w"
  by (simp add: backoff_def)

lemma state_before_scripted:
  "state_before scripted i (\<lambda>d w. w) (\<lambda>w. (0, w)) k l = drop k l"
proof (induction k)
  case 0 show ?case by simp
next
  case (Suc k)
  have "snd (scripted (drop k l)) = drop (Suc k) l"
    by (cases "drop k l") (auto simp: scripted_def drop_Suc drop_tl split: list.splits)
  then show ?case using Suc by (simp add: backoff_trivial)
qed

lemma attempt_scripted:
  "attempt scripted i (\<lambda>d w. w) (\<lambda>w. (0, w)) k l = (if k < length l then l ! k else Status_OK)"
  by (cases "drop k l")
     (auto simp: attempt_def state_before_scripted scripted_def hd_drop_conv_nth
           dest: arg_cong [where f = hd] split: list.splits)

text \<open>
  Claim C3. \<open>CallWithRetries\<close> returns the result of the first attempt whose code is not
  in the retriable set, provided that attempt is one of the first \<open>kMaxRetries + 1\<close>
  (so it returns \<open>OK\<close> as soon as \<open>f\<close> succeeds, when \<open>OK\<close> is not retriable), and \<open>f\<close>
  is not called again. If the first \<open>kMaxRetries + 1 = 11\<close> attempts are all retriable, it
  returns \<open>ABORTED\<close> after exactly these attempts, and the message carries the last
  attempt's status.
\<close>

theorem CallWithRetries_result:
  "(\<forall>k\<le>kMaxRetries.
      (\<forall>j<k. IsRetriable retr (code (attempt f i sl nw j w))) \<longrightarrow>
      \<not> IsRetriable retr (code (attempt f i sl nw k w)) \<longrightarrow>
      CallWithRetries f i sl retr nw ts w = f (state_before f i sl nw k w) \<and>
      fst (CallWithRetries f i sl retr nw ts w) = attempt f i sl nw k w) \<and>
   (\<forall>k\<le>kMaxRetries. OK \<notin> retr \<longrightarrow>
      (\<forall>j<k. IsRetriable retr (code (attempt f i sl nw j w))) \<longrightarrow>
      code (attempt f i sl nw k w) = OK \<longrightarrow>
      code (fst (CallWithRetries f i sl retr nw ts w)) = OK) \<and>
   ((\<forall>j\<le>kMaxRetries. IsRetriable retr (code (attempt f i sl nw j w))) \<longrightarrow>
      CallWithRetries f i sl retr nw ts w =
        (AbortedError ts (attempt f i sl nw kMaxRetries w),
         snd (f (state_before f i sl nw kMaxRetries w))) \<and>
      code (fst (CallWithRetries f i sl retr nw ts w)) = ABORTED \<and>
      error_message (fst (CallWithRetries f i sl retr nw ts w)) =
        ''All 10 retry attempts failed. The last failure: '' @
        ts (attempt f i sl nw kMaxRetries w))"
proof (intro conjI allI impI)
  fix k assume k: "k \<le> kMaxRetries"
    and r: "\<forall>j<k. IsRetriable retr (code (attempt f i sl nw j w))"
    and n: "\<not> IsRetriable retr (code (attempt f i sl nw k w))"
  show e: "CallWithRetries f i sl retr nw ts w = f (state_before f i sl nw k w)"
    using CallWithRetries_first_final [OF k _ n] r by blast
  show "fst (CallWithRetries f i sl retr nw ts w) = attempt f i sl nw k w"
    by (simp add: e attempt_def)
next
  fix k assume k: "k \<le> kMaxRetries" and ok: "OK \<notin> retr"
    and r: "\<forall>j<k. IsRetriable retr (code (attempt f i sl nw j w))"
    and c: "code (attempt f i sl nw k w) = OK"
  have n: "\<not> IsRetriable retr (code (attempt f i sl nw k w))"
    using ok c by (simp add: IsRetriable_def)
  have "CallWithRetries f i sl retr nw ts w = f (state_before f i sl nw k w)"
    using CallWithRetries_first_final [OF k _ n] r by blast
  then show "code (fst (CallWithRetries f i sl retr nw ts w)) = OK"
    using c by (simp add: attempt_def)
next
  assume a: "\<forall>j\<le>kMaxRetries. IsRetriable retr (code (attempt f i sl nw j w))"
  show e: "CallWithRetries f i sl retr nw ts w =
        (AbortedError ts (attempt f i sl nw kMaxRetries w),
         snd (f (state_before f i sl nw kMaxRetries w)))"
    by (rule CallWithRetries_exhausted) (use a in simp)
  show "code (fst (CallWithRetries f i sl retr nw ts w)) = ABORTED"
    by (simp add: e AbortedError_def)
  show "error_message (fst (CallWithRetries f i sl retr nw ts w)) =
        ''All 10 retry attempts failed. The last failure: '' @
        ts (attempt f i sl nw kMaxRetries w)"
    by (simp add: e AbortedError_def dec_kMaxRetries)
qed

theorem CallWithRetries_result_witness:
  "fst (CallWithRetries scripted 1000000 (\<lambda>d w. w) {UNAVAILABLE, DEADLINE_EXCEEDED, UNKNOWN}
          (\<lambda>w. (0, w)) error_message
          [\<lparr>code = UNAVAILABLE, error_message = ''a''\<rparr>,
           \<lparr>code = UNKNOWN, error_message = ''b''\<rparr>,
           \<lparr>code = NOT_FOUND, error_message = ''c''\<rparr>])
     = \<lparr>code = NOT_FOUND, error_message = ''c''\<rparr> \<and>
   code (fst (CallWithRetries scripted 1000000 (\<lambda>d w. w) {UNAVAILABLE, DEADLINE_EXCEEDED, UNKNOWN}
          (\<lambda>w. (0, w)) error_message
          [\<lparr>code = UNAVAILABLE, error_message = ''a''\<rparr>,
           \<lparr>code = UNKNOWN, error_message = ''b''\<rparr>,
           Status_OK])) = OK \<and>
   fst (CallWithRetries scripted 1000000 (\<lambda>d w. w) {UNAVAILABLE, DEADLINE_EXCEEDED, UNKNOWN}
          (\<lambda>w. (0, w)) error_message
          (replicate 11 \<lparr>code = UNAVAILABLE, error_message = ''down''\<rparr>))
     = \<lparr>code = ABORTED,
        error_message = ''All 10 retry attempts failed. The last failure: down''\<rparr>"
proof -
  let ?R = "{UNAVAILABLE, DEADLINE_EXCEEDED, UNKNOWN}"
  let ?l1 = "[\<lparr>code = UNAVAILABLE, error_message = ''a''\<rparr>,
           \<lparr>code = UNKNOWN, error_message = ''b''\<rparr>,
           \<lparr>code = NOT_FOUND, error_message = ''c''\<rparr>]"
  let ?l2 = "[\<lparr>code = UNAVAILABLE, error_message = ''a''\<rparr>,
           \<lparr>code = UNKNOWN, error_message = ''b''\<rparr>,
           Status_OK]"
  let ?l3 = "replicate 11 \<lparr>code = UNAVAILABLE, error_message = ''down''\<rparr>"
  have two: "(2::nat) \<le> kMaxRetries" by (simp add: kMaxRetries_def)
  have lt2: "\<And>j P. (\<forall>j<(2::nat). P j) = (P 0 \<and> P 1)"
    by (auto simp: less_Suc_eq numeral_2_eq_2)
  note inst = CallWithRetries_result [where f = scripted and i = 1000000 and sl = "\<lambda>d w. w"
      and nw = "\<lambda>w. (0, w)" and retr = ?R and ts = error_message]
  have A: "fst (CallWithRetries scripted 1000000 (\<lambda>d w. w) ?R (\<lambda>w. (0, w)) error_message ?l1)
           = \<lparr>code = NOT_FOUND, error_message = ''c''\<rparr>"
  proof -
    have h1: "\<forall>j<2. IsRetriable ?R (code (attempt scripted 1000000 (\<lambda>d w. w) (\<lambda>w. (0, w)) j ?l1))"
      by (simp add: attempt_scripted IsRetriable_def lt2)
    have h2: "\<not> IsRetriable ?R (code (attempt scripted 1000000 (\<lambda>d w. w) (\<lambda>w. (0, w)) 2 ?l1))"
      by (simp add: attempt_scripted IsRetriable_def)
    from inst [where w = ?l1, THEN conjunct1, rule_format, OF two h1 [rule_format] h2, THEN conjunct2]
    show ?thesis by (simp add: attempt_scripted)
  qed
  have B: "code (fst (CallWithRetries scripted 1000000 (\<lambda>d w. w) ?R (\<lambda>w. (0, w)) error_message ?l2))
           = OK"
  proof -
    have h0: "OK \<notin> ?R" by simp
    have h1: "\<forall>j<2. IsRetriable ?R (code (attempt scripted 1000000 (\<lambda>d w. w) (\<lambda>w. (0, w)) j ?l2))"
      by (simp add: attempt_scripted IsRetriable_def lt2)
    have h2: "code (attempt scripted 1000000 (\<lambda>d w. w) (\<lambda>w. (0, w)) 2 ?l2) = OK"
      by (simp add: attempt_scripted Status_OK_def)
    from inst [where w = ?l2, THEN conjunct2, THEN conjunct1, rule_format, OF two h0 h1 [rule_format] h2]
    show ?thesis .
  qed
  have C: "fst (CallWithRetries scripted 1000000 (\<lambda>d w. w) ?R (\<lambda>w. (0, w)) error_message ?l3)
     = \<lparr>code = ABORTED,
        error_message = ''All 10 retry attempts failed. The last failure: down''\<rparr>"
  proof -
    have h1: "\<forall>j\<le>kMaxRetries. IsRetriable ?R
                (code (attempt scripted 1000000 (\<lambda>d w. w) (\<lambda>w. (0, w)) j ?l3))"
      by (simp add: attempt_scripted IsRetriable_def kMaxRetries_def)
    from inst [where w = ?l3, THEN conjunct2, THEN conjunct2, rule_format, OF h1 [rule_format], THEN conjunct1]
    show ?thesis
      by (simp add: attempt_scripted kMaxRetries_def AbortedError_def dec.simps)
  qed
  from A B C show ?thesis by blast
qed

lemma backoff_lifted:
  "backoff i (\<lambda>d (b, w). (b, sl d w)) (\<lambda>(b, w). case nw w of (r, w') \<Rightarrow> (r, b, w')) k (b, w)
     = (b, backoff i sl nw k w)"
  by (simp add: backoff_def split: prod.splits)

lemma delete_lambda_at:
  "delete_lambda df (0 < k, w) = (absorb_not_found k (fst (df w)), True, snd (df w))"
  by (cases "df w") (auto simp: delete_lambda_def absorb_not_found_def)

lemma state_before_delete:
  "state_before (delete_lambda df) i (\<lambda>d (b, w). (b, sl d w))
       (\<lambda>(b, w). case nw w of (r, w') \<Rightarrow> (r, b, w')) k (False, w)
     = (0 < k, state_before df i sl nw k w)"
proof (induction k)
  case 0 show ?case by simp
next
  case (Suc k)
  show ?case
    by (simp add: Suc delete_lambda_at backoff_lifted)
qed

lemma attempt_delete:
  "attempt (delete_lambda df) i (\<lambda>d (b, w). (b, sl d w))
       (\<lambda>(b, w). case nw w of (r, w') \<Rightarrow> (r, b, w')) k (False, w)
     = absorb_not_found k (attempt df i sl nw k w)"
  by (simp add: attempt_def state_before_delete delete_lambda_at)

lemma DeleteWithRetries_first_final:
  assumes k: "k \<le> kMaxRetries"
    and r: "\<And>j. j < k \<Longrightarrow>
              IsRetriable retr (code (absorb_not_found j (attempt df i sl nw j w)))"
    and n: "\<not> IsRetriable retr (code (absorb_not_found k (attempt df i sl nw k w)))"
  shows "DeleteWithRetries df i sl retr nw ts w =
        (absorb_not_found k (attempt df i sl nw k w), snd (df (state_before df i sl nw k w)))"
proof -
  have "CallWithRetries (delete_lambda df) i (\<lambda>d (b, w). (b, sl d w)) retr
          (\<lambda>(b, w). case nw w of (r, w') \<Rightarrow> (r, b, w')) ts (False, w)
        = delete_lambda df (state_before (delete_lambda df) i (\<lambda>d (b, w). (b, sl d w))
             (\<lambda>(b, w). case nw w of (r, w') \<Rightarrow> (r, b, w')) k (False, w))"
    by (rule CallWithRetries_first_final [OF k]) (use r n in \<open>simp_all add: attempt_delete\<close>)
  then show ?thesis
    by (simp add: DeleteWithRetries_def state_before_delete delete_lambda_at attempt_def)
qed

lemma DeleteWithRetries_exhausted:
  assumes a: "\<And>j. j \<le> kMaxRetries \<Longrightarrow>
        IsRetriable retr (code (absorb_not_found j (attempt df i sl nw j w)))"
  shows "DeleteWithRetries df i sl retr nw ts w =
        (AbortedError ts (absorb_not_found kMaxRetries (attempt df i sl nw kMaxRetries w)),
         snd (df (state_before df i sl nw kMaxRetries w)))"
proof -
  let ?f = "delete_lambda df"
  let ?sl = "\<lambda>d (b, w). (b, sl d w)"
  let ?nw = "\<lambda>(b, w). case nw w of (r, w') \<Rightarrow> (r, b, w')"
  have "CallWithRetries ?f i ?sl retr ?nw ts (False, w)
        = (AbortedError ts (attempt ?f i ?sl ?nw kMaxRetries (False, w)),
           snd (?f (state_before ?f i ?sl ?nw kMaxRetries (False, w))))"
    by (rule CallWithRetries_exhausted) (use a in \<open>simp add: attempt_delete\<close>)
  then show ?thesis
    by (simp add: DeleteWithRetries_def state_before_delete delete_lambda_at attempt_delete)
qed

text \<open>
  Claim C5. \<open>DeleteWithRetries\<close> returns what \<open>CallWithRetries\<close> returns on the attempts
  of the delete function in which a \<open>NOT_FOUND\<close> of any attempt after the first is rewritten
  to \<open>OK\<close>; against a delete function that fails with \<open>UNAVAILABLE\<close> twice and then
  returns \<open>NOT_FOUND\<close> it returns \<open>OK\<close> (with \<open>UNAVAILABLE\<close> retriable and \<open>OK\<close> not).
\<close>

theorem DeleteWithRetries_result:
  "(\<forall>k\<le>kMaxRetries.
      (\<forall>j<k. IsRetriable retr (code (absorb_not_found j (attempt df i sl nw j w)))) \<longrightarrow>
      \<not> IsRetriable retr (code (absorb_not_found k (attempt df i sl nw k w))) \<longrightarrow>
      DeleteWithRetries df i sl retr nw ts w =
        (absorb_not_found k (attempt df i sl nw k w),
         snd (df (state_before df i sl nw k w)))) \<and>
   ((\<forall>j\<le>kMaxRetries.
        IsRetriable retr (code (absorb_not_found j (attempt df i sl nw j w)))) \<longrightarrow>
      DeleteWithRetries df i sl retr nw ts w =
        (AbortedError ts (absorb_not_found kMaxRetries (attempt df i sl nw kMaxRetries w)),
         snd (df (state_before df i sl nw kMaxRetries w)))) \<and>
   (UNAVAILABLE \<in> retr \<longrightarrow> OK \<notin> retr \<longrightarrow>
      fst (DeleteWithRetries scripted i (\<lambda>d l. l) retr (\<lambda>l. (0, l)) ts
             [\<lparr>code = UNAVAILABLE, error_message = m1\<rparr>,
              \<lparr>code = UNAVAILABLE, error_message = m2\<rparr>,
              \<lparr>code = NOT_FOUND, error_message = m3\<rparr>]) = Status_OK)"
proof (intro conjI allI impI)
  fix k assume "k \<le> kMaxRetries"
    "\<forall>j<k. IsRetriable retr (code (absorb_not_found j (attempt df i sl nw j w)))"
    "\<not> IsRetriable retr (code (absorb_not_found k (attempt df i sl nw k w)))"
  then show "DeleteWithRetries df i sl retr nw ts w =
        (absorb_not_found k (attempt df i sl nw k w), snd (df (state_before df i sl nw k w)))"
    by (intro DeleteWithRetries_first_final) simp_all
next
  assume "\<forall>j\<le>kMaxRetries.
        IsRetriable retr (code (absorb_not_found j (attempt df i sl nw j w)))"
  then show "DeleteWithRetries df i sl retr nw ts w =
        (AbortedError ts (absorb_not_found kMaxRetries (attempt df i sl nw kMaxRetries w)),
         snd (df (state_before df i sl nw kMaxRetries w)))"
    by (intro DeleteWithRetries_exhausted) simp_all
next
  assume u: "UNAVAILABLE \<in> retr" and o: "OK \<notin> retr"
  let ?l = "[\<lparr>code = UNAVAILABLE, error_message = m1\<rparr>,
              \<lparr>code = UNAVAILABLE, error_message = m2\<rparr>,
              \<lparr>code = NOT_FOUND, error_message = m3\<rparr>]"
  have two: "(2::nat) \<le> kMaxRetries" by (simp add: kMaxRetries_def)
  have h1: "IsRetriable retr (code (absorb_not_found j
                (attempt scripted i (\<lambda>d w. w) (\<lambda>w. (0, w)) j ?l)))" if "j < 2" for j
  proof -
    from that have "j = 0 \<or> j = 1" by auto
    then show ?thesis
      using u by (auto simp: attempt_scripted IsRetriable_def absorb_not_found_def)
  qed
  have h2: "\<not> IsRetriable retr (code (absorb_not_found 2
                (attempt scripted i (\<lambda>d w. w) (\<lambda>w. (0, w)) 2 ?l)))"
    using o by (simp add: attempt_scripted IsRetriable_def absorb_not_found_def Status_OK_def)
  show "fst (DeleteWithRetries scripted i (\<lambda>d l. l) retr (\<lambda>l. (0, l)) ts ?l) = Status_OK"
    by (simp add: DeleteWithRetries_first_final [OF two h1 h2] attempt_scripted
          absorb_not_found_def)
qed

theorem DeleteWithRetries_result_witness:
  "DeleteWithRetries scripted 100000 (\<lambda>d l. l)
      {UNAVAILABLE, DEADLINE_EXCEEDED, UNKNOWN, FAILED_PRECONDITION, INTERNAL}
      (\<lambda>l. (0, l)) error_message
      [\<lparr>code = UNAVAILABLE, error_message = ''x''\<rparr>,
       \<lparr>code = UNAVAILABLE, error_message = ''y''\<rparr>,
       \<lparr>code = NOT_FOUND, error_message = ''z''\<rparr>] = (Status_OK, []) \<and>
   fst (DeleteWithRetries scripted 100000 (\<lambda>d l. l)
      {UNAVAILABLE, DEADLINE_EXCEEDED, UNKNOWN, FAILED_PRECONDITION, INTERNAL}
      (\<lambda>l. (0, l)) error_message
      [\<lparr>code = NOT_FOUND, error_message = ''z''\<rparr>]) = \<lparr>code = NOT_FOUND, error_message = ''z''\<rparr> \<and>
   fst (DeleteWithRetries scripted 100000 (\<lambda>d l. l)
      {UNAVAILABLE, DEADLINE_EXCEEDED, UNKNOWN, FAILED_PRECONDITION, INTERNAL}
      (\<lambda>l. (0, l)) error_message
      (replicate 11 \<lparr>code = INTERNAL, error_message = ''Cannot delete a non-empty directory.''\<rparr>))
     = \<lparr>code = ABORTED, error_message =
         ''All 10 retry attempts failed. The last failure: Cannot delete a non-empty directory.''\<rparr>"
proof -
  let ?R = "{UNAVAILABLE, DEADLINE_EXCEEDED, UNKNOWN, FAILED_PRECONDITION, INTERNAL}"
  let ?l1 = "[\<lparr>code = UNAVAILABLE, error_message = ''x''\<rparr>,
       \<lparr>code = UNAVAILABLE, error_message = ''y''\<rparr>,
       \<lparr>code = NOT_FOUND, error_message = ''z''\<rparr>]"
  let ?l2 = "[\<lparr>code = NOT_FOUND, error_message = ''z''\<rparr>]"
  let ?l3 = "replicate 11 \<lparr>code = INTERNAL, error_message = ''Cannot delete a non-empty directory.''\<rparr>"
  note inst = DeleteWithRetries_result [where df = scripted and i = 100000 and sl = "\<lambda>d w. w"
      and nw = "\<lambda>w. (0, w)" and retr = ?R and ts = error_message]
  have two: "(2::nat) \<le> kMaxRetries" and zero: "(0::nat) \<le> kMaxRetries"
    by (simp_all add: kMaxRetries_def)
  have lt2: "\<And>P. (\<forall>j<(2::nat). P j) = (P 0 \<and> P 1)"
    by (auto simp: less_Suc_eq numeral_2_eq_2)
  have A: "DeleteWithRetries scripted 100000 (\<lambda>d l. l) ?R (\<lambda>l. (0, l)) error_message ?l1
           = (Status_OK, [])"
  proof -
    have h1: "\<forall>j<2. IsRetriable ?R (code (absorb_not_found j
                (attempt scripted 100000 (\<lambda>d w. w) (\<lambda>w. (0, w)) j ?l1)))"
      by (simp add: attempt_scripted IsRetriable_def lt2 absorb_not_found_def)
    have h2: "\<not> IsRetriable ?R (code (absorb_not_found 2
                (attempt scripted 100000 (\<lambda>d w. w) (\<lambda>w. (0, w)) 2 ?l1)))"
      by (simp add: attempt_scripted IsRetriable_def absorb_not_found_def Status_OK_def)
    from inst [where w = ?l1, THEN conjunct1, rule_format, OF two h1 [rule_format] h2]
    show ?thesis
      by (simp add: attempt_scripted state_before_scripted absorb_not_found_def scripted_def)
  qed
  have B: "fst (DeleteWithRetries scripted 100000 (\<lambda>d l. l) ?R (\<lambda>l. (0, l)) error_message ?l2)
           = \<lparr>code = NOT_FOUND, error_message = ''z''\<rparr>"
  proof -
    have h2: "\<not> IsRetriable ?R (code (absorb_not_found 0
                (attempt scripted 100000 (\<lambda>d w. w) (\<lambda>w. (0, w)) 0 ?l2)))"
      by (simp add: attempt_scripted IsRetriable_def absorb_not_found_def)
    from inst [where w = ?l2, THEN conjunct1, rule_format, OF zero _ h2]
    show ?thesis
      by (simp add: attempt_scripted absorb_not_found_def)
  qed
  have C: "fst (DeleteWithRetries scripted 100000 (\<lambda>d l. l) ?R (\<lambda>l. (0, l)) error_message ?l3)
     = \<lparr>code = ABORTED, error_message =
         ''All 10 retry attempts failed. The last failure: Cannot delete a non-empty directory.''\<rparr>"
  proof -
    have h1: "\<forall>j\<le>kMaxRetries. IsRetriable ?R (code (absorb_not_found j
                (attempt scripted 100000 (\<lambda>d w. w) (\<lambda>w. (0, w)) j ?l3)))"
      by (simp add: attempt_scripted IsRetriable_def kMaxRetries_def absorb_not_found_def)
    from inst [where w = ?l3, THEN conjunct2, THEN conjunct1, rule_format, OF h1 [rule_format]]
    show ?thesis
      by (simp add: attempt_scripted kMaxRetries_def AbortedError_def dec.simps absorb_not_found_def)
  qed
  from A B C show ?thesis by blast
qed

text \<open>
  Claim C8. With a positive initial delay, the loop sleeps for \<open>delay_micros\<close> before
  retry \<open>k\<close>, computed from the number \<open>rnd\<close> that the random source returned. The
  delay is exactly the clamped base delay plus the jitter: the smaller of \<open>initial << k\<close>
  and the maximum backoff of 32,000,000 microseconds, to which the jitter \<open>rnd mod 10\<^sup>6\<close>,
  a number in \<open>[0, 10\<^sup>6)\<close>, is added after the clamping. So it lies in
  \<open>[initial << k, (initial << k) + 10\<^sup>6)\<close> while \<open>initial << k\<close> is below the maximum
  backoff, and in \<open>[32000000, 32000000 + 10\<^sup>6)\<close> once it has reached it. Here
  \<open>initial << k\<close> is the 64-bit shift of the code, read as signed; it is the product
  \<open>initial * 2\<^sup>k\<close> whenever that product is below \<open>2\<^sup>6\<^sup>3\<close>.
\<close>

theorem delay_micros_interval:
  "0 <s initial \<Longrightarrow>
     backoff initial sleep_usec new64 k w =
       sleep_usec (delay_micros initial k (fst (new64 w))) (snd (new64 w)) \<and>
     sint (delay_micros initial k rnd) =
       min (sint (push_bit k initial :: int64)) 32000000 + uint rnd mod 1000000 \<and>
     sint (rnd mod 1000000) = uint rnd mod 1000000 \<and>
     0 \<le> uint rnd mod 1000000 \<and> uint rnd mod 1000000 < 1000000 \<and>
     (sint (push_bit k initial :: int64) < 32000000 \<longrightarrow>
        sint (delay_micros initial k rnd) =
          sint (push_bit k initial :: int64) + uint rnd mod 1000000 \<and>
        sint (push_bit k initial :: int64) \<le> sint (delay_micros initial k rnd) \<and>
        sint (delay_micros initial k rnd) < sint (push_bit k initial :: int64) + 1000000) \<and>
     (32000000 \<le> sint (push_bit k initial :: int64) \<longrightarrow>
        sint (delay_micros initial k rnd) = 32000000 + uint rnd mod 1000000 \<and>
        32000000 \<le> sint (delay_micros initial k rnd) \<and>
        sint (delay_micros initial k rnd) < 32000000 + 1000000) \<and>
     (sint initial * 2 ^ k < 2 ^ 63 \<longrightarrow> sint (push_bit k initial :: int64) = sint initial * 2 ^ k)"
proof (intro conjI impI)
  assume pos: "0 <s initial"
  show "backoff initial sleep_usec new64 k w =
       sleep_usec (delay_micros initial k (fst (new64 w))) (snd (new64 w))"
    using pos by (simp add: backoff_def split: prod.splits)
  show "sint (delay_micros initial k rnd) =
       min (sint (push_bit k initial :: int64)) 32000000 + uint rnd mod 1000000"
    by (rule sint_delay_micros)
  show "sint (rnd mod 1000000) = uint rnd mod 1000000" by (rule sint_jitter)
  show j: "0 \<le> uint rnd mod 1000000" "uint rnd mod 1000000 < 1000000" by simp_all
  { assume "sint (push_bit k initial :: int64) < 32000000"
    then show e: "sint (delay_micros initial k rnd) =
        sint (push_bit k initial :: int64) + uint rnd mod 1000000"
      by (simp add: sint_delay_micros)
    show "sint (push_bit k initial :: int64) \<le> sint (delay_micros initial k rnd)"
      and "sint (delay_micros initial k rnd) < sint (push_bit k initial :: int64) + 1000000"
      using e j by linarith+ }
  { assume "32000000 \<le> sint (push_bit k initial :: int64)"
    then show e: "sint (delay_micros initial k rnd) = 32000000 + uint rnd mod 1000000"
      by (simp add: sint_delay_micros)
    show "32000000 \<le> sint (delay_micros initial k rnd)"
      and "sint (delay_micros initial k rnd) < 32000000 + 1000000"
      using e j by linarith+ }
  { assume "sint initial * 2 ^ k < 2 ^ 63"
    then show "sint (push_bit k initial :: int64) = sint initial * 2 ^ k"
      using pos by (intro sint_push_bit_exact) (simp_all add: word_sless_alt) }
qed

theorem delay_micros_interval_witness:
  "0 <s (100000 :: int64) \<and>
   sint (push_bit 3 (100000 :: int64)) = 800000 \<and>
   sint (delay_micros 100000 3 123456789) = 1256789 \<and>
   800000 \<le> sint (delay_micros 100000 3 123456789) \<and>
   sint (delay_micros 100000 3 123456789) < 1800000 \<and>
   sint (push_bit 9 (100000 :: int64)) = 51200000 \<and>
   sint (delay_micros 100000 9 123456789) = 32456789 \<and>
   32000000 \<le> sint (delay_micros 100000 9 123456789) \<and>
   sint (delay_micros 100000 9 123456789) < 33000000"
proof -
  have pos: "0 <s (100000 :: int64)" by (simp add: word_sless_alt)
  have s3: "sint (push_bit 3 (100000 :: int64)) = 800000" by simp
  have s9: "sint (push_bit 9 (100000 :: int64)) = 51200000" by simp
  have u: "uint (123456789 :: uint64) mod 1000000 = 456789" by simp
  note t3 = delay_micros_interval [OF pos, where k = 3 and rnd = 123456789, THEN conjunct2]
  note t9 = delay_micros_interval [OF pos, where k = 9 and rnd = 123456789, THEN conjunct2]
  have A: "sint (delay_micros 100000 3 123456789) = 1256789"
    using t3 [THEN conjunct1] s3 u by simp
  have B: "sint (delay_micros 100000 9 123456789) = 32456789"
    using t9 [THEN conjunct1] s9 u by simp
  have A': "800000 \<le> sint (delay_micros 100000 3 123456789) \<and>
   sint (delay_micros 100000 3 123456789) < 1800000"
    using t3 s3 by simp
  have B': "32000000 \<le> sint (delay_micros 100000 9 123456789) \<and>
   sint (delay_micros 100000 9 123456789) < 33000000"
    using t9 s9 by simp
  from pos s3 s9 A B A' B' show ?thesis by blast
qed

section \<open>Properties of the double-precision product\<close>

lemma double_exponent_small: "a < 2 ^ 53 \<Longrightarrow> double_exponent a 0 = 0"
  by (subst double_exponent.simps) simp

lemma round_to_double_exact: "\<bar>x\<bar> < 2 ^ 53 \<Longrightarrow> round_to_double x = x"
proof -
  assume a: "\<bar>x\<bar> < 2 ^ 53"
  then have "nat \<bar>x\<bar> < 2 ^ 53" by (simp add: nat_less_iff)
  then have e: "double_exponent (nat \<bar>x\<bar>) 0 = 0" by (rule double_exponent_small)
  show ?thesis
    by (simp add: round_to_double_def e Let_def) (simp add: mult_sgn_abs)
qed

lemma times_1e6_exact:
  assumes "\<bar>sint m * 1000000\<bar> < 2 ^ 53"
  shows "times_1e6 m = m * 1000000" and "sint (times_1e6 m) = sint m * 1000000"
proof -
  have "\<bar>sint m\<bar> \<le> \<bar>sint m * 1000000\<bar>" by (simp add: abs_mult)
  then have s: "\<bar>sint m\<bar> < 2 ^ 53" using assms by linarith
  have r: "round_to_double (round_to_double (sint m) * 1000000) = sint m * 1000000"
    using assms by (simp add: round_to_double_exact [OF s] round_to_double_exact)
  have rng: "- (2 ^ 63) \<le> sint m * 1000000 \<and> sint m * 1000000 < 2 ^ 63"
  proof -
    let ?p = "sint m * 1000000"
    have "- (2 ^ 53) < ?p" "?p < 2 ^ 53" using assms by (simp_all only: abs_less_iff) linarith+
    moreover have "(2::int) ^ 53 \<le> 2 ^ 63" by simp
    ultimately show ?thesis by linarith
  qed
  show e: "times_1e6 m = m * 1000000"
    using rng by (simp add: times_1e6_def r double_to_int64_def)
  have "sint (word_of_int (sint m * 1000000) :: 64 word) = signed_take_bit 63 (sint m * 1000000)"
    by (simp only: sint_sbintrunc') simp
  also have "\<dots> = sint m * 1000000"
    using rng by (intro signed_take_bit_int_eq_self) simp_all
  finally show "sint (times_1e6 m) = sint m * 1000000"
    using rng by (simp add: times_1e6_def r double_to_int64_def)
qed

lemma times_1e6_9: "times_1e6 9 = 9000000"
  by (simp add: times_1e6_exact(1))
lemma times_1e6_6: "times_1e6 6 = 6000000"
  by (simp add: times_1e6_exact(1))
lemma times_1e6_0: "times_1e6 0 = 0"
  by (simp add: times_1e6_exact(1))

lemma double_exponent_recent: "double_exponent 1600000000123000000 0 = 8"
  by (simp add: double_exponent.simps)

lemma times_1e6_recent: "times_1e6 1600000000123 = 1600000000123000064"
proof -
  have s: "sint (1600000000123 :: 64 word) = 1600000000123" by simp
  have r1: "round_to_double 1600000000123 = 1600000000123"
    by (rule round_to_double_exact) simp
  have r2: "round_to_double 1600000000123000000 = 1600000000123000064"
    by (simp add: round_to_double_def double_exponent_recent Let_def)
  show ?thesis
    by (simp add: times_1e6_def s r1 r2 double_to_int64_def)
qed

lemma double_exponent_le: "a < 2 ^ (53 + n) \<Longrightarrow> e \<le> n \<Longrightarrow> double_exponent a e \<le> n"
proof (induction a e rule: double_exponent.induct)
  case (1 a e)
  show ?case
  proof (cases "a < 2 ^ (53 + e)")
    case True
    then show ?thesis using "1.prems" by (subst double_exponent.simps) simp
  next
    case False
    have "e \<noteq> n" using False "1.prems"(1) by auto
    then have "e + 1 \<le> n" using "1.prems"(2) by simp
    from "1.IH" [OF False "1.prems"(1) this] False
    show ?thesis by (subst double_exponent.simps) simp
  qed
qed

lemma round_step:
  fixes a q r P :: nat
  assumes a: "int a = int (q * P) + int r" and r: "r < P"
    and up: "C \<Longrightarrow> P \<le> 2 * r" and down: "\<not> C \<Longrightarrow> 2 * r \<le> P"
  shows "2 * \<bar>int ((if C then q + 1 else q) * P) - int a\<bar> \<le> int P"
proof (cases C)
  case True
  have "int ((q + 1) * P) - int a = int P - int r" using a by (simp add: algebra_simps)
  moreover have "int P \<le> 2 * int r" using up [OF True] by simp
  moreover have "int r < int P" using r by simp
  ultimately have "2 * \<bar>int ((q + 1) * P) - int a\<bar> \<le> int P" by simp
  then show ?thesis using True by (simp only: if_True)
next
  case False
  have "int (q * P) - int a = - int r" using a by simp
  moreover have "2 * int r \<le> int P" using down [OF False] by simp
  ultimately have "2 * \<bar>int (q * P) - int a\<bar> \<le> int P" by simp
  then show ?thesis using False by (simp only: if_False)
qed

lemma round_nat_nearest:
  fixes a P :: nat
  assumes "0 < P"
  shows "2 * \<bar>int ((if P < 2 * (a mod P) \<or> (2 * (a mod P) = P \<and> odd (a div P))
                      then a div P + 1 else a div P) * P) - int a\<bar> \<le> int P"
proof (rule round_step)
  have "int a = int (a div P * P + a mod P)" by simp
  then show "int a = int (a div P * P) + int (a mod P)" by (simp only: of_nat_add)
  show "a mod P < P" using assms by simp
  show "P \<le> 2 * (a mod P)" if "P < 2 * (a mod P) \<or> (2 * (a mod P) = P \<and> odd (a div P))"
    using that by auto
  show "2 * (a mod P) \<le> P" if "\<not> (P < 2 * (a mod P) \<or> (2 * (a mod P) = P \<and> odd (a div P)))"
    using that by auto
qed

lemma round_to_double_nearest:
  "2 * \<bar>round_to_double x - x\<bar> \<le> 2 ^ double_exponent (nat \<bar>x\<bar>) 0"
proof -
  let ?a = "nat \<bar>x\<bar>"
  let ?e = "double_exponent ?a 0"
  let ?q' = "(if 2 ^ ?e < 2 * (?a mod 2 ^ ?e) \<or> (2 * (?a mod 2 ^ ?e) = 2 ^ ?e \<and> odd (?a div 2 ^ ?e))
             then ?a div 2 ^ ?e + 1 else ?a div 2 ^ ?e)"
  have n: "2 * \<bar>int (?q' * 2 ^ ?e) - int ?a\<bar> \<le> int (2 ^ ?e)"
    by (rule round_nat_nearest) simp
  have xs: "sgn x * int ?a = x" by (simp add: mult_sgn_abs)
  have rd: "round_to_double x = sgn x * int (?q' * 2 ^ ?e)"
    by (simp add: round_to_double_def Let_def)
  have "sgn x * (int (?q' * 2 ^ ?e) - int ?a) = round_to_double x - x"
    by (simp only: right_diff_distrib rd xs)
  then have "\<bar>round_to_double x - x\<bar> = \<bar>sgn x\<bar> * \<bar>int (?q' * 2 ^ ?e) - int ?a\<bar>"
    by (simp only: abs_mult [symmetric])
  also have "\<dots> \<le> \<bar>int (?q' * 2 ^ ?e) - int ?a\<bar>"
  proof -
    have "\<bar>sgn x\<bar> \<le> 1" by (simp add: abs_sgn_eq)
    then show ?thesis by (rule mult_left_le_one_le [rotated 2]) simp_all
  qed
  finally have "\<bar>round_to_double x - x\<bar> \<le> \<bar>int (?q' * 2 ^ ?e) - int ?a\<bar>" .
  with n show ?thesis by (simp only: of_nat_power of_nat_numeral)
qed

lemma times_1e6_near:
  assumes m: "\<bar>sint m\<bar> < 2 ^ 53" and p: "\<bar>sint m * 1000000\<bar> \<le> 2 ^ 63 - 1024"
  shows "sint (times_1e6 m) = round_to_double (sint m * 1000000) \<and>
         \<bar>sint (times_1e6 m) - sint m * 1000000\<bar> \<le> 512"
proof -
  let ?p = "sint m * 1000000"
  have "nat \<bar>?p\<bar> < 2 ^ (53 + 10)" using p by (simp add: nat_less_iff)
  then have "double_exponent (nat \<bar>?p\<bar>) 0 \<le> 10" by (rule double_exponent_le) simp
  then have "(2::int) ^ double_exponent (nat \<bar>?p\<bar>) 0 \<le> 2 ^ 10"
    by (rule power_increasing) simp
  with round_to_double_nearest [of ?p]
  have near: "\<bar>round_to_double ?p - ?p\<bar> \<le> 512" by simp
  then have rng: "- (2 ^ 63) \<le> round_to_double ?p \<and> round_to_double ?p < 2 ^ 63"
    using p by (simp add: abs_le_iff)
  have "sint (word_of_int (round_to_double ?p) :: 64 word) =
        signed_take_bit 63 (round_to_double ?p)"
    by (simp only: sint_sbintrunc') simp
  also have "\<dots> = round_to_double ?p"
    using rng by (intro signed_take_bit_int_eq_self) simp_all
  finally have "sint (times_1e6 m) = round_to_double ?p"
    using rng by (simp add: times_1e6_def round_to_double_exact [OF m] double_to_int64_def)
  with near show ?thesis by simp
qed

section \<open>Properties of the S3 file system\<close>

lemmas parse_defs = ParseS3Path_def ParseURI_def is_letter_digit_dot_def is_letter_def
  ConsumePrefix_slash_def Let_def

lemmas store_defs = store_client_def store_GetObject_def store_HeadObject_def store_HeadBucket_def
  store_ListObjects_def store_DeleteObject_def store_UploadFile_def store_RetryUpload_def
  next_fault_def http_error_def store_put_def listing_def

lemma parse_b_k: "ParseS3Path ''s3://b/k'' e = Inr (''b'', ''k'')"
  by (simp add: parse_defs)

text \<open>
  Claim C7. A ranged GET answered with HTTP 416 makes \<open>Read\<close> return \<open>OUT_OF_RANGE\<close> with
  an empty result (0 bytes read); any other failure returns \<open>UNKNOWN\<close>; a success returns
  \<open>OK\<close> and as many bytes as the content length of the response. On the reference store,
  reading at offset 5 for 100 bytes from a 10-byte object returns its last 5 bytes, and a
  read at offset 10 returns \<open>OUT_OF_RANGE\<close> and no bytes.
\<close>

theorem Read_outcomes:
  "(\<forall>error w'. GetObject c bucket object offset (offset + n - 1) w = (Failure error, w') \<longrightarrow>
       ResponseCode error = 416 \<longrightarrow>
       Read c bucket object offset n result w =
         ((err OUT_OF_RANGE ''Read less bytes than requested'', []), w')) \<and>
   (\<forall>error w'. GetObject c bucket object offset (offset + n - 1) w = (Failure error, w') \<longrightarrow>
       ResponseCode error \<noteq> 416 \<longrightarrow>
       Read c bucket object offset n result w =
         ((err UNKNOWN (ExceptionName error @ Message error), result), w')) \<and>
   (\<forall>r w'. GetObject c bucket object offset (offset + n - 1) w = (Success r, w') \<longrightarrow>
       Read c bucket object offset n result w =
         ((Status_OK, take (unat (GetContentLength r)) (Body r)), w') \<and>
       length (snd (fst (Read c bucket object offset n result w))) = unat (GetContentLength r)) \<and>
   (\<forall>st ob. map_of (objects st) (bucket, object) = Some ob \<longrightarrow> faults st = [] \<longrightarrow>
       length (obj_body ob) = 10 \<longrightarrow>
       Read store_client bucket object 5 100 result st = ((Status_OK, drop 5 (obj_body ob)), st) \<and>
       length (drop 5 (obj_body ob)) = 5 \<and>
       Read store_client bucket object 10 100 result st =
         ((err OUT_OF_RANGE ''Read less bytes than requested'', []), st))"
proof (intro conjI allI impI)
  fix error w'
  assume "GetObject c bucket object offset (offset + n - 1) w = (Failure error, w')"
    "ResponseCode error = 416"
  then show "Read c bucket object offset n result w =
         ((err OUT_OF_RANGE ''Read less bytes than requested'', []), w')"
    by (simp add: Read_def REQUESTED_RANGE_NOT_SATISFIABLE_def)
next
  fix error w'
  assume "GetObject c bucket object offset (offset + n - 1) w = (Failure error, w')"
    "ResponseCode error \<noteq> 416"
  then show "Read c bucket object offset n result w =
         ((err UNKNOWN (ExceptionName error @ Message error), result), w')"
    by (simp add: Read_def REQUESTED_RANGE_NOT_SATISFIABLE_def)
next
  fix r w'
  assume g: "GetObject c bucket object offset (offset + n - 1) w = (Success r, w')"
  then show e: "Read c bucket object offset n result w =
         ((Status_OK, take (unat (GetContentLength r)) (Body r)), w')"
    by (simp add: Read_def)
  show "length (snd (fst (Read c bucket object offset n result w))) = unat (GetContentLength r)"
    by (simp add: e GetContentLength_def unat_of_nat)
next
  fix st :: Store and ob :: StoredObject
  assume m: "map_of (objects st) (bucket, object) = Some ob" and f: "faults st = []"
    and l: "length (obj_body ob) = 10"
  have st: "st\<lparr>faults := []\<rparr> = st" using f by simp
  show "Read store_client bucket object 5 100 result st = ((Status_OK, drop 5 (obj_body ob)), st)"
    using m f l
    by (simp add: Read_def store_client_def store_GetObject_def next_fault_def
          GetContentLength_def REQUESTED_RANGE_NOT_SATISFIABLE_def)
  show "length (drop 5 (obj_body ob)) = 5" using l by simp
  show "Read store_client bucket object 10 100 result st =
         ((err OUT_OF_RANGE ''Read less bytes than requested'', []), st)"
    using m f l
    by (simp add: Read_def store_client_def store_GetObject_def next_fault_def http_error_def
          GetContentLength_def REQUESTED_RANGE_NOT_SATISFIABLE_def)
qed

theorem Read_outcomes_witness:
  "Read store_client ''b'' ''k'' 5 100 [] ten_byte_store = ((Status_OK, ''56789''), ten_byte_store) \<and>
   Read store_client ''b'' ''k'' 10 100 [] ten_byte_store =
     ((err OUT_OF_RANGE ''Read less bytes than requested'', []), ten_byte_store) \<and>
   Read store_client ''b'' ''missing'' 0 4 ''old'' ten_byte_store =
     ((err UNKNOWN ''NoSuchKey'', ''old''), ten_byte_store)"
proof -
  let ?ob = "\<lparr>obj_body = ''0123456789'', obj_modified = 7\<rparr>"
  have m: "map_of (objects ten_byte_store) (''b'', ''k'') = Some ?ob"
    and f: "faults ten_byte_store = []" and l: "length (obj_body ?ob) = 10"
    by (simp_all add: ten_byte_store_def)
  note scen = Read_outcomes [THEN conjunct2, THEN conjunct2, THEN conjunct2, rule_format, OF m f l]
  have g4: "GetObject store_client ''b'' ''missing'' 0 (0 + 4 - 1) ten_byte_store =
      (Failure (http_error 404 ''NoSuchKey''), ten_byte_store)"
    by (simp add: store_client_def store_GetObject_def next_fault_def ten_byte_store_def)
  have r4: "ResponseCode (http_error 404 ''NoSuchKey'') \<noteq> 416" by (simp add: http_error_def)
  from Read_outcomes [THEN conjunct2, THEN conjunct1, rule_format, OF g4 r4, of "''old''"] scen [of "[]"]
  show ?thesis by (simp add: http_error_def)
qed

text \<open>
  Claim C6, as amended. \<open>Stat\<close> on a path with a non-empty key probes \<open>ListObjects\<close> with
  the key followed by a slash (the key itself when it already ends in one) and at most one
  key. If the probe returns an object, the result is length 0, directory, and the
  modification time \<open>times_1e6\<close> of the first listed object's \<open>LastModified\<close>, whatever
  \<open>HeadObject\<close> answered: the product with \<open>1e6\<close> as the code computes it in double
  precision. That is exactly \<open>LastModified * 10\<^sup>6\<close> when the product is below \<open>2\<^sup>5\<^sup>3\<close> in
  magnitude; for \<open>LastModified\<close> below \<open>2\<^sup>5\<^sup>3\<close> and a product of at most \<open>2\<^sup>6\<^sup>3 - 1024\<close> in
  magnitude it is the double nearest to the product, at most 512 away from it. If
  \<open>HeadObject\<close> failed and the probe failed or returned nothing, \<open>Stat\<close> returns
  \<open>NOT_FOUND\<close>.
\<close>

theorem Stat_directory_wins:
  "ParseS3Path fname True = Inr (bucket, object) \<Longrightarrow> object \<noteq> [] \<Longrightarrow>
   HeadObject c bucket object w = (ho, w1) \<Longrightarrow>
   ListObjects c bucket (with_slash object) 1 w1 = (lo, w2) \<Longrightarrow>
   (last object \<noteq> CHR ''/'' \<longrightarrow> with_slash object = object @ ''/'') \<and>
   (\<forall>objs. lo = Success objs \<longrightarrow> objs \<noteq> [] \<longrightarrow>
      Stat c fname stats w =
        (Inr (stats\<lparr>stat_length := 0, is_directory := True,
                    mtime_nsec := times_1e6 (LastModified (hd objs))\<rparr>), w2) \<and>
      (\<bar>sint (LastModified (hd objs)) * 1000000\<bar> < 2 ^ 53 \<longrightarrow>
         sint (times_1e6 (LastModified (hd objs))) = sint (LastModified (hd objs)) * 1000000) \<and>
      (\<bar>sint (LastModified (hd objs))\<bar> < 2 ^ 53 \<longrightarrow>
       \<bar>sint (LastModified (hd objs)) * 1000000\<bar> \<le> 2 ^ 63 - 1024 \<longrightarrow>
         sint (times_1e6 (LastModified (hd objs))) =
           round_to_double (sint (LastModified (hd objs)) * 1000000) \<and>
         \<bar>sint (times_1e6 (LastModified (hd objs))) -
           sint (LastModified (hd objs)) * 1000000\<bar> \<le> 512)) \<and>
   ((\<forall>r. ho \<noteq> Success r) \<longrightarrow> (\<forall>objs. lo = Success objs \<longrightarrow> objs = []) \<longrightarrow>
      Stat c fname stats w =
        (Inl (err NOT_FOUND (''Object '' @ fname @ '' does not exist'')), w2))"
proof (intro conjI allI impI)
  assume p: "ParseS3Path fname True = Inr (bucket, object)" and ne: "object \<noteq> []"
    and h: "HeadObject c bucket object w = (ho, w1)"
    and l: "ListObjects c bucket (with_slash object) 1 w1 = (lo, w2)"
  { assume "last object \<noteq> CHR ''/''"
    then show "with_slash object = object @ ''/''" by (simp add: with_slash_def) }
  { fix objs assume "lo = Success objs" "objs \<noteq> []"
    then show "Stat c fname stats w =
        (Inr (stats\<lparr>stat_length := 0, is_directory := True,
                    mtime_nsec := times_1e6 (LastModified (hd objs))\<rparr>), w2)"
      using p ne h l
      by (cases ho) (simp_all add: Stat_def hd_conv_nth) }
  { fix objs :: "ListedObject list"
    assume "\<bar>sint (LastModified (hd objs)) * 1000000\<bar> < 2 ^ 53"
    then show "sint (times_1e6 (LastModified (hd objs))) =
        sint (LastModified (hd objs)) * 1000000"
      by (rule times_1e6_exact(2)) }
  { fix objs :: "ListedObject list"
    assume a: "\<bar>sint (LastModified (hd objs))\<bar> < 2 ^ 53"
      "\<bar>sint (LastModified (hd objs)) * 1000000\<bar> \<le> 2 ^ 63 - 1024"
    show "sint (times_1e6 (LastModified (hd objs))) =
           round_to_double (sint (LastModified (hd objs)) * 1000000)"
      using times_1e6_near [OF a] by (rule conjunct1)
    show "\<bar>sint (times_1e6 (LastModified (hd objs))) -
           sint (LastModified (hd objs)) * 1000000\<bar> \<le> 512"
      using times_1e6_near [OF a] by (rule conjunct2) }
  { assume "\<forall>r. ho \<noteq> Success r" "\<forall>objs. lo = Success objs \<longrightarrow> objs = []"
    then show "Stat c fname stats w =
        (Inl (err NOT_FOUND (''Object '' @ fname @ '' does not exist'')), w2)"
      using p ne h l
      by (cases ho; cases lo) (simp_all add: Stat_def) }
qed

theorem Stat_directory_wins_witness:
  "Stat store_client ''s3://b/k'' FileStatistics_new file_and_directory_store =
     (Inr \<lparr>stat_length = 0, mtime_nsec = 6000000, is_directory = True\<rparr>,
      file_and_directory_store) \<and>
   Stat store_client ''s3://b/k'' FileStatistics_new recent_store =
     (Inr \<lparr>stat_length = 0, mtime_nsec = 1600000000123000064, is_directory = True\<rparr>,
      recent_store) \<and>
   \<bar>sint (times_1e6 1600000000123) - 1600000000123 * 1000000\<bar> \<le> 512 \<and>
   Stat store_client ''s3://b/k'' FileStatistics_new empty_store =
     (Inl (err NOT_FOUND ''Object s3://b/k does not exist''), empty_store)"
proof -
  have p: "ParseS3Path ''s3://b/k'' True = Inr (''b'', ''k'')" by (rule parse_b_k)
  have ne: "''k'' \<noteq> []" by simp
  have h1: "HeadObject store_client ''b'' ''k'' file_and_directory_store =
      (Success \<lparr>ContentLength = 4, HeadLastModified = 5\<rparr>, file_and_directory_store)"
    by (simp add: store_client_def store_HeadObject_def next_fault_def
          file_and_directory_store_def)
  have l1: "ListObjects store_client ''b'' (with_slash ''k'') 1 file_and_directory_store =
      (Success [\<lparr>Key = ''k/child'', LastModified = 6\<rparr>], file_and_directory_store)"
    by (simp add: store_client_def store_ListObjects_def next_fault_def listing_def
          with_slash_def file_and_directory_store_def)
  have h2: "HeadObject store_client ''b'' ''k'' empty_store =
      (Failure (http_error 404 []), empty_store)"
    by (simp add: store_client_def store_HeadObject_def next_fault_def empty_store_def)
  have l2: "ListObjects store_client ''b'' (with_slash ''k'') 1 empty_store =
      (Success [], empty_store)"
    by (simp add: store_client_def store_ListObjects_def next_fault_def listing_def
          with_slash_def empty_store_def)
  have h3: "HeadObject store_client ''b'' ''k'' recent_store =
      (Failure (http_error 404 []), recent_store)"
    by (simp add: store_client_def store_HeadObject_def next_fault_def recent_store_def)
  have l3: "ListObjects store_client ''b'' (with_slash ''k'') 1 recent_store =
      (Success [\<lparr>Key = ''k/child'', LastModified = 1600000000123\<rparr>], recent_store)"
    by (simp add: store_client_def store_ListObjects_def next_fault_def listing_def
          with_slash_def recent_store_def)
  note t1 = Stat_directory_wins [OF p ne h1 l1, THEN conjunct2, THEN conjunct1, rule_format,
      of "[\<lparr>Key = ''k/child'', LastModified = 6\<rparr>]" FileStatistics_new]
  have A: "Stat store_client ''s3://b/k'' FileStatistics_new file_and_directory_store =
     (Inr \<lparr>stat_length = 0, mtime_nsec = 6000000, is_directory = True\<rparr>,
      file_and_directory_store)"
    using t1 [THEN conjunct1] by (simp add: FileStatistics_new_def times_1e6_6)
  note t3 = Stat_directory_wins [OF p ne h3 l3, THEN conjunct2, THEN conjunct1, rule_format,
      of "[\<lparr>Key = ''k/child'', LastModified = 1600000000123\<rparr>]" FileStatistics_new]
  have C: "Stat store_client ''s3://b/k'' FileStatistics_new recent_store =
     (Inr \<lparr>stat_length = 0, mtime_nsec = 1600000000123000064, is_directory = True\<rparr>,
      recent_store)"
    using t3 [THEN conjunct1] by (simp add: FileStatistics_new_def times_1e6_recent)
  have D: "\<bar>sint (times_1e6 1600000000123) - 1600000000123 * 1000000\<bar> \<le> 512"
  proof -
    have a: "\<bar>sint (LastModified (hd [\<lparr>Key = ''k/child'', LastModified = 1600000000123\<rparr>]))\<bar>
               < 2 ^ 53"
      and b: "\<bar>sint (LastModified (hd [\<lparr>Key = ''k/child'', LastModified = 1600000000123\<rparr>]))
                * 1000000\<bar> \<le> 2 ^ 63 - 1024"
      by simp_all
    have n: "[\<lparr>Key = ''k/child'', LastModified = 1600000000123\<rparr>] \<noteq> []" by simp
    from t3 [THEN conjunct2, THEN conjunct2, rule_format, OF refl n a b, THEN conjunct2]
    show ?thesis by simp
  qed
  from Stat_directory_wins [OF p ne h2 l2, THEN conjunct2, THEN conjunct2, rule_format,
      of FileStatistics_new]
  have B: "Stat store_client ''s3://b/k'' FileStatistics_new empty_store =
     (Inl (err NOT_FOUND ''Object s3://b/k does not exist''), empty_store)"
    by simp
  from A B C D show ?thesis by blast
qed

text \<open>
  The claim as stated, with the modification time equal to \<open>LastModified * 10\<^sup>6\<close>, fails on
  a time stamp of today: for an object modified at 1600000000123 milliseconds the product
  in double precision is 1600000000123000064, since doubles of this size are 256 apart.
\<close>

theorem Stat_mtime_counterexample:
  "Stat store_client ''s3://b/k'' FileStatistics_new recent_store =
     (Inr \<lparr>stat_length = 0, mtime_nsec = 1600000000123000064, is_directory = True\<rparr>,
      recent_store) \<and>
   listing ''b'' ''k/'' recent_store = [\<lparr>Key = ''k/child'', LastModified = 1600000000123\<rparr>] \<and>
   sint (1600000000123000064 :: int64) \<noteq> sint (1600000000123 :: int64) * 1000000"
  by (simp add: Stat_def parse_b_k store_defs with_slash_def recent_store_def
        FileStatistics_new_def times_1e6_recent)

text \<open>
  Claim C9. When the \<open>ListObjects\<close> request that \<open>DeleteDir\<close> issues fails, \<open>DeleteDir\<close>
  returns \<open>OK\<close> and issues no further request: the world is the one the failed listing
  left, and on the reference store no object is deleted.
\<close>

theorem DeleteDir_listing_failure:
  "ParseS3Path dirname False = Inr (bucket, object) \<Longrightarrow>
   (\<forall>error w1. ListObjects c bucket (with_slash object) 2 w = (Failure error, w1) \<longrightarrow>
      DeleteDir c dirname w = (Status_OK, w1)) \<and>
   (\<forall>e rest. faults st = Some e # rest \<longrightarrow>
      DeleteDir store_client dirname st = (Status_OK, st\<lparr>faults := rest\<rparr>) \<and>
      objects (snd (DeleteDir store_client dirname st)) = objects st)"
  by (simp add: DeleteDir_def store_client_def store_ListObjects_def next_fault_def)

theorem DeleteDir_listing_failure_witness:
  "DeleteDir store_client ''s3://b/k'' failing_store = (Status_OK, empty_store)"
proof -
  have "faults failing_store =
      [Some \<lparr>ExceptionName = ''Timeout'', Message = ''no answer'', ResponseCode = 0\<rparr>]"
    by (simp add: failing_store_def)
  from DeleteDir_listing_failure [OF parse_b_k, THEN conjunct2, rule_format, OF this, THEN conjunct1]
  show ?thesis by (simp add: failing_store_def empty_store_def)
qed

section \<open>Properties of the writable file\<close>

lemma Sync_keeps_flag: "sync_needed (snd (fst (Sync c f w))) = sync_needed f"
  by (simp add: Sync_def Let_def split: option.splits prod.splits)

lemma loop_done: "GetStatus h \<noteq> FAILED \<Longrightarrow> RetryUpload_loop c t h n w = (h, t, w)"
  by (subst RetryUpload_loop.simps) simp

lemma Sync_first_upload_completes:
  assumes "outfile f = Some t" "sync_needed f"
    "UploadFile c t (file_bucket f) (file_object f) w = (h, t0, w0)" "GetStatus h = COMPLETED"
  shows "Sync c f w = ((Status_OK, f\<lparr>outfile := Some (seekp (tellp t) (stream_clear t0))\<rparr>), w0)"
  using assms by (simp add: Sync_def loop_done)

lemma Close_first_upload_completes:
  assumes "outfile f = Some t" "sync_needed f"
    "UploadFile c t (file_bucket f) (file_object f) w = (h, t0, w0)" "GetStatus h = COMPLETED"
  shows "Close c f w = ((Status_OK, f\<lparr>outfile := None\<rparr>), w0)"
  using assms Sync_first_upload_completes [OF assms]
  by (simp add: Close_def ok_def Status_OK_def)

lemma store_UploadFile_cases:
  assumes "store_UploadFile t b k w = (h, t', w')" "unchanged w0 w"
  shows "file_data t' = file_data t \<and> GetBucketName h = b \<and> GetKey h = k \<and>
         ((GetStatus h = COMPLETED \<and> uploaded b k (file_data t) w0 w') \<or>
          (GetStatus h = FAILED \<and> unchanged w0 w'))"
  using assms
  by (auto simp: store_UploadFile_def next_fault_def store_put_def uploaded_def unchanged_def
        Let_def split: list.splits option.splits if_splits)

lemma loop_store:
  "c = store_client \<Longrightarrow> RetryUpload_loop c t h n w = (h', t', w') \<Longrightarrow>
   GetBucketName h = b \<Longrightarrow> GetKey h = k \<Longrightarrow> file_data t = d \<Longrightarrow>
   (GetStatus h = COMPLETED \<and> uploaded b k d w0 w) \<or> (GetStatus h = FAILED \<and> unchanged w0 w) \<Longrightarrow>
   (GetStatus h' = COMPLETED \<and> uploaded b k d w0 w') \<or> (GetStatus h' = FAILED \<and> unchanged w0 w')"
proof (induction c t h n w rule: RetryUpload_loop.induct)
  case (1 c stream handle retries w)
  show ?case
  proof (cases "GetStatus handle = FAILED \<and> retries < kUploadRetries")
    case False
    then have "RetryUpload_loop c stream handle retries w = (handle, stream, w)"
      by (subst RetryUpload_loop.simps) auto
    with "1.prems" show ?thesis by auto
  next
    case True
    obtain h1 t1 w1 where r: "RetryUpload c stream handle w = (h1, t1, w1)"
      by (cases "RetryUpload c stream handle w") auto
    then have u: "store_UploadFile stream b k w = (h1, t1, w1)"
      using "1.prems" by (simp add: store_client_def store_RetryUpload_def)
    have unch: "unchanged w0 w" using True "1.prems"(6) by auto
    note cs = store_UploadFile_cases [OF u unch]
    have next_: "RetryUpload_loop c t1 h1 (retries + 1) w1 = (h', t', w')"
      using "1.prems"(2) True r by (subst (asm) RetryUpload_loop.simps) simp
    show ?thesis
      by (rule "1.IH" [OF True r [symmetric] refl "1.prems"(1) next_])
         (use cs "1.prems" in auto)
  qed
qed

lemma Sync_store_ok:
  assumes o: "outfile f = Some t" and n: "sync_needed f"
    and s: "Sync store_client f w = ((s, f'), w')" and ok: "ok s"
  shows "uploaded (file_bucket f) (file_object f) (file_data t) w w' \<and> s = Status_OK"
proof -
  obtain h0 t0 w0 where u: "store_UploadFile t (file_bucket f) (file_object f) w = (h0, t0, w0)"
    by (cases "store_UploadFile t (file_bucket f) (file_object f) w") auto
  obtain h1 t1 w1 where l: "RetryUpload_loop store_client t0 h0 0 w0 = (h1, t1, w1)"
    by (cases "RetryUpload_loop store_client t0 h0 0 w0") auto
  have unch: "unchanged w w" by (simp add: unchanged_def)
  note cs = store_UploadFile_cases [OF u unch]
  have fin: "(GetStatus h1 = COMPLETED \<and> uploaded (file_bucket f) (file_object f) (file_data t) w w1) \<or>
        (GetStatus h1 = FAILED \<and> unchanged w w1)"
    by (rule loop_store [OF refl l]) (use cs in auto)
  have "GetStatus h1 = COMPLETED \<and> w' = w1 \<and> s = Status_OK"
    using s ok o n u l
    by (auto simp: Sync_def store_client_def ok_def err_def Let_def split: if_splits)
  with fin show ?thesis by auto
qed

lemma Close_store_ok:
  assumes o: "outfile f = Some t" and n: "sync_needed f"
    and s: "Close store_client f w = ((s, f'), w')" and ok: "ok s"
  shows "uploaded (file_bucket f) (file_object f) (file_data t) w w'"
proof -
  obtain s1 f1 w1 where sy: "Sync store_client f w = ((s1, f1), w1)"
    by (cases "Sync store_client f w") auto
  have "ok s1 \<and> w' = w1"
    using s ok o sy by (auto simp: Close_def split: if_splits)
  with Sync_store_ok [OF o n sy] show ?thesis by auto
qed

lemma Append_fresh:
  "Append d (S3WritableFile_new b k) =
     (Status_OK, \<lparr>file_bucket = b, file_object = k, sync_needed = True,
        outfile = Some \<lparr>file_data = d, put_pos = length d, stream_good = True\<rparr>\<rparr>)"
  by (simp add: Append_def S3WritableFile_new_def TempFile_new_def stream_write_def)


lemma parse_empty_ok:
  "ParseS3Path p False = Inr x \<Longrightarrow> ParseS3Path p True = Inr x \<and> snd x \<noteq> []"
  by (auto simp: ParseS3Path_def Let_def split: prod.splits if_splits)

lemma next_fault_none: "faults st = [] \<Longrightarrow> next_fault st = (None, st)"
  by (simp add: next_fault_def)

lemma listing_nothing_under:
  "nothing_under b k st \<Longrightarrow> listing b (k @ ''/'') st = []"
  by (simp add: listing_def nothing_under_def)

lemma Stat_store_file:
  assumes "ParseS3Path p True = Inr (b, k)" "k \<noteq> []" "last k \<noteq> CHR ''/''"
    "faults st = []" "b \<in> set (buckets st)" "map_of (objects st) (b, k) = Some ob"
    "nothing_under b k st"
  shows "Stat store_client p stats st =
     (Inr (stats\<lparr>stat_length := of_nat (length (obj_body ob)), is_directory := False,
                 mtime_nsec := times_1e6 (obj_modified ob)\<rparr>), st)"
  using assms
  by (simp add: Stat_def store_client_def store_HeadObject_def store_ListObjects_def
        next_fault_none with_slash_def listing_nothing_under)

lemma Read_store_whole:
  assumes f: "faults st = []" and m: "map_of (objects st) (b, k) = Some ob"
    and ne: "obj_body ob \<noteq> []" and l: "length (obj_body ob) < 2 ^ 64"
  shows "Read store_client b k 0 (of_nat (length (obj_body ob))) r st =
           ((Status_OK, obj_body ob), st)"
proof -
  let ?L = "length (obj_body ob)"
  have u: "unat (of_nat ?L :: 64 word) = ?L" using l by (simp add: unat_of_nat)
  have nz: "(of_nat ?L :: 64 word) \<noteq> 0" using u ne by (metis length_0_conv unat_0)
  have u1: "unat (of_nat ?L - 1 :: 64 word) = ?L - 1" using nz u by (simp add: unat_minus_one)
  have pos: "0 < ?L" using ne by simp
  show ?thesis
    using m ne pos
    by (simp add: Read_def store_client_def store_GetObject_def next_fault_none [OF f]
          u u1 GetContentLength_def)
qed

lemma uploaded_lookup:
  "uploaded b k d w w' \<Longrightarrow>
     map_of (objects w') (b, k) = Some \<lparr>obj_body = d, obj_modified = clock w\<rparr> \<and>
     b \<in> set (buckets w')"
  by (simp add: uploaded_def)

lemma uploaded_nothing_under:
  "uploaded b k d w w' \<Longrightarrow> nothing_under b k w \<Longrightarrow> nothing_under b k w'"
  by (auto simp: uploaded_def nothing_under_def filter_empty_conv)

lemma parse_b_d_slash: "ParseS3Path ''s3://b/d/'' e = Inr (''b'', ''d/'')"
  by (simp add: parse_defs)

text \<open>
  Claim C1, as amended. On the reference object store: let the path parse to a bucket and a
  key that does not end in a slash, let no object of the bucket have a key that starts with
  that key followed by a slash, and let \<open>b\<close> be a non-empty byte sequence (shorter than
  \<open>2\<^sup>6\<^sup>3\<close>). If open-write, \<open>Append b\<close> and \<open>Close\<close> succeed and no fault is pending
  afterwards, then read-region returns exactly \<open>b\<close> and \<open>Stat\<close> reports the length of \<open>b\<close>
  for a file that is not a directory.
\<close>

theorem write_then_read_round_trip:
  assumes p: "ParseS3Path p False = Inr (bucket, key)"
    and slash: "last key \<noteq> CHR ''/''"
    and under: "nothing_under bucket key w"
    and ne: "b \<noteq> []" and len: "length b < 2 ^ 63"
    and new: "NewWritableFile p = Inr f0"
    and app: "Append b f0 = (s1, f1)" and ok1: "ok s1"
    and close: "Close store_client f1 w = ((s2, f2), w')" and ok2: "ok s2"
    and nf: "faults w' = []"
  shows "NewReadOnlyMemoryRegionFromFile store_client p w' =
           (Inr \<lparr>region_data = b, region_length = of_nat (length b)\<rparr>, w') \<and>
         Stat store_client p FileStatistics_new w' =
           (Inr \<lparr>stat_length = of_nat (length b), mtime_nsec = times_1e6 (clock w),
                 is_directory = False\<rparr>, w') \<and>
         sint (of_nat (length b) :: int64) = int (length b)"
proof -
  have f0: "f0 = S3WritableFile_new bucket key"
    using new p by (simp add: NewWritableFile_def)
  have f1: "f1 = \<lparr>file_bucket = bucket, file_object = key, sync_needed = True,
        outfile = Some \<lparr>file_data = b, put_pos = length b, stream_good = True\<rparr>\<rparr>"
    using app by (simp add: f0 Append_fresh)
  have up: "uploaded bucket key b w w'"
    using Close_store_ok [OF _ _ close ok2, of "\<lparr>file_data = b, put_pos = length b, stream_good = True\<rparr>"]
    by (simp add: f1)
  let ?ob = "\<lparr>obj_body = b, obj_modified = clock w\<rparr>"
  have m: "map_of (objects w') (bucket, key) = Some ?ob" and bk: "bucket \<in> set (buckets w')"
    using uploaded_lookup [OF up] by simp_all
  have un: "nothing_under bucket key w'" by (rule uploaded_nothing_under [OF up under])
  have pt: "ParseS3Path p True = Inr (bucket, key)" and kne: "key \<noteq> []"
    using parse_empty_ok [OF p] by simp_all
  have st: "Stat store_client p FileStatistics_new w' =
           (Inr \<lparr>stat_length = of_nat (length b), mtime_nsec = times_1e6 (clock w),
                 is_directory = False\<rparr>, w')"
    using Stat_store_file [OF pt kne slash nf bk m un, of FileStatistics_new]
    by (simp add: FileStatistics_new_def)
  have len64: "length (obj_body ?ob) < 2 ^ 64" using len by simp
  have rd: "Read store_client bucket key 0 (of_nat (length b)) [] w' = ((Status_OK, b), w')"
    using Read_store_whole [OF nf m _ len64, of "[]"] ne by simp
  have u: "unat (of_nat (length b) :: 64 word) = length b"
    using len by (simp add: unat_of_nat)
  have rg: "NewReadOnlyMemoryRegionFromFile store_client p w' =
           (Inr \<lparr>region_data = b, region_length = of_nat (length b)\<rparr>, w')"
    by (simp add: NewReadOnlyMemoryRegionFromFile_def GetFileSize_def st NewRandomAccessFile_def
          p rd ok_def Status_OK_def u)
  have "sint (of_nat (length b) :: int64) = int (length b)"
  proof -
    have "uint (of_nat (length b) :: int64) = int (length b)" using u by (simp add: uint_nat)
    moreover have "signed_take_bit 63 (int (length b)) = int (length b)"
      using len by (intro signed_take_bit_int_eq_self) simp_all
    ultimately show ?thesis by (simp add: sint_uint)
  qed
  with rg st show ?thesis by simp
qed


theorem write_then_read_round_trip_witness:
  "NewReadOnlyMemoryRegionFromFile store_client ''s3://b/k'' hi_store =
     (Inr \<lparr>region_data = ''hi'', region_length = 2\<rparr>, hi_store) \<and>
   Stat store_client ''s3://b/k'' FileStatistics_new hi_store =
     (Inr \<lparr>stat_length = 2, mtime_nsec = 9000000, is_directory = False\<rparr>, hi_store)"
proof -
  let ?f1 = "\<lparr>file_bucket = ''b'', file_object = ''k'', sync_needed = True,
        outfile = Some \<lparr>file_data = ''hi'', put_pos = 2, stream_good = True\<rparr>\<rparr>"
  have p: "ParseS3Path ''s3://b/k'' False = Inr (''b'', ''k'')" by (rule parse_b_k)
  have slash: "last ''k'' \<noteq> CHR ''/''" by simp
  have under: "nothing_under ''b'' ''k'' flaky_store"
    by (simp add: nothing_under_def flaky_store_def)
  have ne: "''hi'' \<noteq> []" and len: "length ''hi'' < 2 ^ 63" by simp_all
  have new: "NewWritableFile ''s3://b/k'' = Inr (S3WritableFile_new ''b'' ''k'')"
    by (simp add: NewWritableFile_def p)
  have app: "Append ''hi'' (S3WritableFile_new ''b'' ''k'') = (Status_OK, ?f1)"
    by (simp add: Append_fresh)
  have ok: "ok Status_OK" by (simp add: ok_def Status_OK_def)
  have close: "Close store_client ?f1 flaky_store =
      ((Status_OK, ?f1\<lparr>outfile := None\<rparr>), hi_store)"
    by (simp add: Close_def Sync_def RetryUpload_loop.simps store_defs flaky_store_def
          hi_store_def kUploadRetries_def ok_def Status_OK_def tellp_def)
  have nf: "faults hi_store = []" by (simp add: hi_store_def)
  from write_then_read_round_trip [OF p slash under ne len new app ok close ok nf]
  show ?thesis by (simp add: flaky_store_def times_1e6_9)
qed

text \<open>
  The claim as stated fails in three ways. A key that ends in a slash is its own directory
  probe: after writing \<open>x\<close> to \<open>d/\<close>, \<open>Stat\<close> reports a directory of length 0 and the
  region is empty.
\<close>

lemma round_trip_slash_key:
  "NewWritableFile ''s3://b/d/'' = Inr (S3WritableFile_new ''b'' ''d/'') \<and>
   fst (Append ''x'' (S3WritableFile_new ''b'' ''d/'')) = Status_OK \<and>
   fst (fst (Close store_client (snd (Append ''x'' (S3WritableFile_new ''b'' ''d/'')))
               empty_store)) = Status_OK \<and>
   fst (Stat store_client ''s3://b/d/'' FileStatistics_new
          (snd (Close store_client (snd (Append ''x'' (S3WritableFile_new ''b'' ''d/'')))
                  empty_store)))
     = Inr \<lparr>stat_length = 0, mtime_nsec = 9000000, is_directory = True\<rparr> \<and>
   fst (NewReadOnlyMemoryRegionFromFile store_client ''s3://b/d/''
          (snd (Close store_client (snd (Append ''x'' (S3WritableFile_new ''b'' ''d/'')))
                  empty_store)))
     = Inr \<lparr>region_data = [], region_length = 0\<rparr>"
proof -
  let ?f1 = "\<lparr>file_bucket = ''b'', file_object = ''d/'', sync_needed = True,
        outfile = Some \<lparr>file_data = ''x'', put_pos = Suc 0, stream_good = True\<rparr>\<rparr>"
  let ?w = "\<lparr>buckets = [''b''],
      objects = [((''b'', ''d/''), \<lparr>obj_body = ''x'', obj_modified = 9\<rparr>)],
      faults = [], clock = 9\<rparr>"
  have new: "NewWritableFile ''s3://b/d/'' = Inr (S3WritableFile_new ''b'' ''d/'')"
    by (simp add: NewWritableFile_def parse_b_d_slash)
  have app: "Append ''x'' (S3WritableFile_new ''b'' ''d/'') = (Status_OK, ?f1)"
    by (simp add: Append_fresh)
  have close: "Close store_client ?f1 empty_store = ((Status_OK, ?f1\<lparr>outfile := None\<rparr>), ?w)"
    by (simp add: Close_def Sync_def RetryUpload_loop.simps store_defs empty_store_def
          kUploadRetries_def ok_def Status_OK_def tellp_def)
  have st: "Stat store_client ''s3://b/d/'' FileStatistics_new ?w =
      (Inr \<lparr>stat_length = 0, mtime_nsec = 9000000, is_directory = True\<rparr>, ?w)"
    by (simp add: Stat_def parse_b_d_slash store_defs with_slash_def FileStatistics_new_def
          times_1e6_9 times_1e6_6)
  have rd: "Read store_client ''b'' ''d/'' 0 0 [] ?w = ((Status_OK, ''x''), ?w)"
    by (simp add: Read_def store_defs GetContentLength_def)
  have rg: "NewReadOnlyMemoryRegionFromFile store_client ''s3://b/d/'' ?w =
      (Inr \<lparr>region_data = [], region_length = 0\<rparr>, ?w)"
    by (simp add: NewReadOnlyMemoryRegionFromFile_def GetFileSize_def st NewRandomAccessFile_def
          parse_b_d_slash rd ok_def Status_OK_def)
  show ?thesis by (simp add: new app close st rg)
qed


text \<open>
  After writing the empty sequence, read-region asks for the range from byte 0 to byte
  \<open>2\<^sup>6\<^sup>4 - 1\<close> of an empty object and fails with \<open>OUT_OF_RANGE\<close>. And when an object
  exists under the key followed by a slash, \<open>Stat\<close> reports a directory of length 0.
\<close>

lemma round_trip_empty_and_directory:
  "fst (fst (Close store_client (snd (Append [] (S3WritableFile_new ''b'' ''k''))) empty_store))
     = Status_OK \<and>
   fst (NewReadOnlyMemoryRegionFromFile store_client ''s3://b/k''
          (snd (Close store_client (snd (Append [] (S3WritableFile_new ''b'' ''k''))) empty_store)))
     = Inl (err OUT_OF_RANGE ''Read less bytes than requested'') \<and>
   fst (fst (Close store_client (snd (Append ''hi'' (S3WritableFile_new ''b'' ''k'')))
               file_and_directory_store)) = Status_OK \<and>
   fst (Stat store_client ''s3://b/k'' FileStatistics_new
          (snd (Close store_client (snd (Append ''hi'' (S3WritableFile_new ''b'' ''k'')))
                  file_and_directory_store)))
     = Inr \<lparr>stat_length = 0, mtime_nsec = 6000000, is_directory = True\<rparr>"
proof -
  let ?f0 = "\<lparr>file_bucket = ''b'', file_object = ''k'', sync_needed = True,
        outfile = Some \<lparr>file_data = [], put_pos = 0, stream_good = True\<rparr>\<rparr>"
  let ?w0 = "\<lparr>buckets = [''b''],
      objects = [((''b'', ''k''), \<lparr>obj_body = [], obj_modified = 9\<rparr>)],
      faults = [], clock = 9\<rparr>"
  let ?f1 = "\<lparr>file_bucket = ''b'', file_object = ''k'', sync_needed = True,
        outfile = Some \<lparr>file_data = ''hi'', put_pos = 2, stream_good = True\<rparr>\<rparr>"
  let ?w1 = "\<lparr>buckets = [''b''],
      objects = [((''b'', ''k''), \<lparr>obj_body = ''hi'', obj_modified = 9\<rparr>),
                 ((''b'', ''k/child''), \<lparr>obj_body = ''x'', obj_modified = 6\<rparr>)],
      faults = [], clock = 9\<rparr>"
  have app0: "Append [] (S3WritableFile_new ''b'' ''k'') = (Status_OK, ?f0)"
    by (simp add: Append_fresh)
  have close0: "Close store_client ?f0 empty_store = ((Status_OK, ?f0\<lparr>outfile := None\<rparr>), ?w0)"
    by (simp add: Close_def Sync_def RetryUpload_loop.simps store_defs empty_store_def
          kUploadRetries_def ok_def Status_OK_def tellp_def)
  have st0: "Stat store_client ''s3://b/k'' FileStatistics_new ?w0 =
      (Inr \<lparr>stat_length = 0, mtime_nsec = 9000000, is_directory = False\<rparr>, ?w0)"
    by (simp add: Stat_def parse_b_k store_defs with_slash_def FileStatistics_new_def
          times_1e6_9 times_1e6_6)
  have rd0: "Read store_client ''b'' ''k'' 0 0 [] ?w0 =
      ((err OUT_OF_RANGE ''Read less bytes than requested'', []), ?w0)"
    by (simp add: Read_def store_defs GetContentLength_def REQUESTED_RANGE_NOT_SATISFIABLE_def)
  have rg0: "NewReadOnlyMemoryRegionFromFile store_client ''s3://b/k'' ?w0 =
      (Inl (err OUT_OF_RANGE ''Read less bytes than requested''), ?w0)"
    by (simp add: NewReadOnlyMemoryRegionFromFile_def GetFileSize_def st0 NewRandomAccessFile_def
          parse_b_k rd0 ok_def err_def)
  have app1: "Append ''hi'' (S3WritableFile_new ''b'' ''k'') = (Status_OK, ?f1)"
    by (simp add: Append_fresh)
  have close1: "Close store_client ?f1 file_and_directory_store =
      ((Status_OK, ?f1\<lparr>outfile := None\<rparr>), ?w1)"
    by (simp add: Close_def Sync_def RetryUpload_loop.simps store_defs
          file_and_directory_store_def kUploadRetries_def ok_def Status_OK_def tellp_def)
  have st1: "Stat store_client ''s3://b/k'' FileStatistics_new ?w1 =
      (Inr \<lparr>stat_length = 0, mtime_nsec = 6000000, is_directory = True\<rparr>, ?w1)"
    by (simp add: Stat_def parse_b_k store_defs with_slash_def FileStatistics_new_def
          times_1e6_9 times_1e6_6)
  show ?thesis by (simp add: app0 close0 rg0 app1 close1 st1)
qed


theorem round_trip_counterexample:
  "(NewWritableFile ''s3://b/d/'' = Inr (S3WritableFile_new ''b'' ''d/'') \<and>
   fst (Append ''x'' (S3WritableFile_new ''b'' ''d/'')) = Status_OK \<and>
   fst (fst (Close store_client (snd (Append ''x'' (S3WritableFile_new ''b'' ''d/'')))
               empty_store)) = Status_OK \<and>
   fst (Stat store_client ''s3://b/d/'' FileStatistics_new
          (snd (Close store_client (snd (Append ''x'' (S3WritableFile_new ''b'' ''d/'')))
                  empty_store)))
     = Inr \<lparr>stat_length = 0, mtime_nsec = 9000000, is_directory = True\<rparr> \<and>
   fst (NewReadOnlyMemoryRegionFromFile store_client ''s3://b/d/''
          (snd (Close store_client (snd (Append ''x'' (S3WritableFile_new ''b'' ''d/'')))
                  empty_store)))
     = Inr \<lparr>region_data = [], region_length = 0\<rparr>) \<and>
   (fst (fst (Close store_client (snd (Append [] (S3WritableFile_new ''b'' ''k''))) empty_store))
     = Status_OK \<and>
   fst (NewReadOnlyMemoryRegionFromFile store_client ''s3://b/k''
          (snd (Close store_client (snd (Append [] (S3WritableFile_new ''b'' ''k''))) empty_store)))
     = Inl (err OUT_OF_RANGE ''Read less bytes than requested'') \<and>
   fst (fst (Close store_client (snd (Append ''hi'' (S3WritableFile_new ''b'' ''k'')))
               file_and_directory_store)) = Status_OK \<and>
   fst (Stat store_client ''s3://b/k'' FileStatistics_new
          (snd (Close store_client (snd (Append ''hi'' (S3WritableFile_new ''b'' ''k'')))
                  file_and_directory_store)))
     = Inr \<lparr>stat_length = 0, mtime_nsec = 6000000, is_directory = True\<rparr>)"
  by (rule conjI [OF round_trip_slash_key round_trip_empty_and_directory])

lemma NewWritableFile_fresh:
  "NewWritableFile fname = Inr f \<Longrightarrow>
     sync_needed f \<and> outfile f = Some TempFile_new \<and>
     f = S3WritableFile_new (file_bucket f) (file_object f)"
  by (auto simp: NewWritableFile_def S3WritableFile_new_def split: sum.splits)

lemma Sync_world:
  "outfile f = Some t \<Longrightarrow> sync_needed f \<Longrightarrow>
   snd (Sync c f w) =
     (case UploadFile c t (file_bucket f) (file_object f) w of
        (h, t0, w0) \<Rightarrow> snd (snd (RetryUpload_loop c t0 h 0 w0)))"
  by (simp add: Sync_def Let_def split: prod.splits)

lemma CreateDir_writes_marker:
  assumes "ParseS3Path dirname True = Inr (bucket, object)" "object \<noteq> []"
    "FileExists c (with_slash dirname) w = (s, w1)" "\<not> ok s"
    "NewWritableFile (with_slash dirname) = Inr g"
  shows "CreateDir c dirname w =
     (case Close c g w1 of ((s', g'), w2) \<Rightarrow> (if ok s' then Status_OK else s', w2))"
  using assms by (simp add: CreateDir_def split: prod.splits)

text \<open>
  Claim C10. A freshly opened writable file has \<open>sync_needed\<close> set and an empty spill file,
  so its first \<open>Sync\<close> (and so \<open>Close\<close>) with no \<open>Append\<close> before it always issues the upload
  of the empty file: the world after \<open>Sync\<close> is the one the upload and its retries leave.
  When the upload completes, both return \<open>OK\<close>; on the reference store a zero-length
  object then exists under the bucket and key. \<open>CreateDir\<close> on a directory that does not
  exist returns what \<open>Close\<close> on such a fresh file for the slash-terminated path returns.
\<close>

theorem fresh_file_first_Sync_uploads:
  "NewWritableFile fname = Inr f \<Longrightarrow>
     sync_needed f \<and> outfile f = Some TempFile_new \<and>
     snd (Sync c f w) =
       (case UploadFile c TempFile_new (file_bucket f) (file_object f) w of
          (h, t0, w0) \<Rightarrow> snd (snd (RetryUpload_loop c t0 h 0 w0))) \<and>
     (\<forall>h t0 w0. UploadFile c TempFile_new (file_bucket f) (file_object f) w = (h, t0, w0) \<longrightarrow>
        GetStatus h = COMPLETED \<longrightarrow>
        Sync c f w = ((Status_OK, f\<lparr>outfile := Some (seekp 0 (stream_clear t0))\<rparr>), w0) \<and>
        Close c f w = ((Status_OK, f\<lparr>outfile := None\<rparr>), w0)) \<and>
     (\<forall>st. faults st = [] \<longrightarrow> file_bucket f \<in> set (buckets st) \<longrightarrow>
        Close store_client f st =
          ((Status_OK, f\<lparr>outfile := None\<rparr>),
           store_put (file_bucket f) (file_object f) [] st) \<and>
        map_of (objects (snd (Close store_client f st))) (file_bucket f, file_object f) =
          Some \<lparr>obj_body = [], obj_modified = clock st\<rparr>) \<and>
     (\<forall>dirname bucket object s w1 g.
        ParseS3Path dirname True = Inr (bucket, object) \<longrightarrow> object \<noteq> [] \<longrightarrow>
        FileExists c (with_slash dirname) w = (s, w1) \<longrightarrow> \<not> ok s \<longrightarrow>
        NewWritableFile (with_slash dirname) = Inr g \<longrightarrow>
        CreateDir c dirname w =
          (case Close c g w1 of ((s', g'), w2) \<Rightarrow> (if ok s' then Status_OK else s', w2)))"
proof -
  assume new: "NewWritableFile fname = Inr f"
  note fr = NewWritableFile_fresh [OF new]
  have o: "outfile f = Some TempFile_new" and n: "sync_needed f" using fr by simp_all
  have t0: "tellp TempFile_new = 0" by (simp add: tellp_def TempFile_new_def)
  have A: "Sync c f w = ((Status_OK, f\<lparr>outfile := Some (seekp 0 (stream_clear t0))\<rparr>), w0) \<and>
        Close c f w = ((Status_OK, f\<lparr>outfile := None\<rparr>), w0)"
    if "UploadFile c TempFile_new (file_bucket f) (file_object f) w = (h, t0, w0)"
      "GetStatus h = COMPLETED" for h t0 w0
    using Sync_first_upload_completes [OF o n that] Close_first_upload_completes [OF o n that] t0
    by simp
  have B: "Close store_client f st =
          ((Status_OK, f\<lparr>outfile := None\<rparr>),
           store_put (file_bucket f) (file_object f) [] st) \<and>
        map_of (objects (snd (Close store_client f st))) (file_bucket f, file_object f) =
          Some \<lparr>obj_body = [], obj_modified = clock st\<rparr>"
    if nf: "faults st = []" and b: "file_bucket f \<in> set (buckets st)" for st
  proof -
    have st: "st\<lparr>faults := []\<rparr> = st" using nf by simp
    have u: "UploadFile store_client TempFile_new (file_bucket f) (file_object f) st =
      (\<lparr>GetBucketName = file_bucket f, GetKey = file_object f, GetStatus = COMPLETED,
        GetLastError = http_error 200 [], GetFailedParts = 0\<rparr>,
       TempFile_new\<lparr>put_pos := 0, stream_good := False\<rparr>,
       store_put (file_bucket f) (file_object f) [] st)"
      using nf b
      by (simp add: store_client_def store_UploadFile_def next_fault_def TempFile_new_def)
    have c: "Close store_client f st = ((Status_OK, f\<lparr>outfile := None\<rparr>),
           store_put (file_bucket f) (file_object f) [] st)"
      by (rule Close_first_upload_completes [OF o n u]) simp
    show ?thesis by (simp add: c store_put_def)
  qed
  show ?thesis
    using fr Sync_world [OF o n, of c w] A B CreateDir_writes_marker [of _ _ _ c w]
    by (intro conjI allI impI) blast+
qed

theorem fresh_file_first_Sync_uploads_witness:
  "Close store_client (S3WritableFile_new ''b'' ''d/'') empty_store =
     ((Status_OK, (S3WritableFile_new ''b'' ''d/'')\<lparr>outfile := None\<rparr>), marker_store) \<and>
   CreateDir store_client ''s3://b/d'' empty_store = (Status_OK, marker_store)"
proof -
  have new: "NewWritableFile ''s3://b/d/'' = Inr (S3WritableFile_new ''b'' ''d/'')"
    by (simp add: NewWritableFile_def parse_b_d_slash)
  note t = fresh_file_first_Sync_uploads [OF new, of store_client empty_store]
  have nf: "faults empty_store = []" and b: "''b'' \<in> set (buckets empty_store)"
    by (simp_all add: empty_store_def)
  have fb: "file_bucket (S3WritableFile_new ''b'' ''d/'') = ''b''"
    and fo: "file_object (S3WritableFile_new ''b'' ''d/'') = ''d/''"
    by (simp_all add: S3WritableFile_new_def)
  have put: "store_put ''b'' ''d/'' [] empty_store = marker_store"
    by (simp add: store_put_def empty_store_def marker_store_def)
  have close: "Close store_client (S3WritableFile_new ''b'' ''d/'') empty_store =
     ((Status_OK, (S3WritableFile_new ''b'' ''d/'')\<lparr>outfile := None\<rparr>), marker_store)"
    using t [THEN conjunct2, THEN conjunct2, THEN conjunct2, THEN conjunct2, THEN conjunct1,
        rule_format, OF nf] b
    by (simp add: fb fo put)
  have p: "ParseS3Path ''s3://b/d'' True = Inr (''b'', ''d'')" by (simp add: parse_defs)
  have ws: "with_slash ''s3://b/d'' = ''s3://b/d/''" by (simp add: with_slash_def)
  have ex: "FileExists store_client (with_slash ''s3://b/d'') empty_store =
      (err NOT_FOUND ''Object s3://b/d/ does not exist'', empty_store)"
    by (simp add: ws FileExists_def Stat_def parse_b_d_slash store_defs with_slash_def
          empty_store_def)
  have nok: "\<not> ok (err NOT_FOUND ''Object s3://b/d/ does not exist'')"
    by (simp add: ok_def err_def)
  have new': "NewWritableFile (with_slash ''s3://b/d'') = Inr (S3WritableFile_new ''b'' ''d/'')"
    by (simp add: ws new)
  have "CreateDir store_client ''s3://b/d'' empty_store = (Status_OK, marker_store)"
    using t [THEN conjunct2, THEN conjunct2, THEN conjunct2, THEN conjunct2, THEN conjunct2,
        rule_format, OF p _ ex nok new']
    by (simp add: close ok_def Status_OK_def)
  with close show ?thesis by simp
qed

text \<open>
  Claim C4, on the code: \<open>Sync\<close> never changes \<open>sync_needed\<close>, so the flag is still set
  after a successful \<open>Sync\<close>. A second \<open>Sync\<close> right after a successful one uploads again:
  on a store whose next six requests fail it consumes all six faults (the upload and its
  five retries) and returns \<open>UNKNOWN\<close>, where the claim expects a no-op that returns
  \<open>OK\<close>.
\<close>

theorem Sync_leaves_sync_needed_set:
  "sync_needed (snd (fst (Sync c f w))) = sync_needed f \<and>
   fst (fst synced_once) = Status_OK \<and>
   sync_needed (snd (fst synced_once)) \<and>
   code (fst (fst (Sync store_client (snd (fst synced_once))
                     ((snd synced_once)\<lparr>faults := six_faults\<rparr>)))) = UNKNOWN \<and>
   faults (snd (Sync store_client (snd (fst synced_once))
                  ((snd synced_once)\<lparr>faults := six_faults\<rparr>))) = []"
proof -
  let ?f2 = "\<lparr>file_bucket = ''b'', file_object = ''k'', sync_needed = True,
        outfile = Some \<lparr>file_data = ''a'', put_pos = Suc 0, stream_good = True\<rparr>\<rparr>"
  let ?w2 = "\<lparr>buckets = [''b''],
      objects = [((''b'', ''k''), \<lparr>obj_body = ''a'', obj_modified = 9\<rparr>)],
      faults = [], clock = 9\<rparr>"
  have s1: "synced_once = ((Status_OK, ?f2), ?w2)"
    by (simp add: synced_once_def Append_fresh Sync_def RetryUpload_loop.simps store_defs
          empty_store_def kUploadRetries_def tellp_def seekp_def stream_clear_def)
  have s2: "Sync store_client ?f2 \<lparr>buckets = [''b''],
      objects = [((''b'', ''k''), \<lparr>obj_body = ''a'', obj_modified = 9\<rparr>)],
      faults = six_faults, clock = 9\<rparr> =
      ((err UNKNOWN ''Timeout: 1 failed parts. no answer'',
        ?f2\<lparr>outfile := Some \<lparr>file_data = ''a'', put_pos = Suc 0, stream_good = False\<rparr>\<rparr>),
       ?w2)"
    by (simp add: six_faults_def Sync_def RetryUpload_loop.simps store_defs
          kUploadRetries_def tellp_def dec.simps eval_nat_numeral)
  show ?thesis
    by (simp add: Sync_keeps_flag s1 s2 err_def)
qed


section \<open>Properties of the multipart copy\<close>

lemma spec_parts_11: "spec_parts (11 * 1024 * 1024) (5 * 1024 * 1024) =
   [(1, 0, 5242879), (2, 5242880, 10485759), (3, 10485760, 11534335)]"
  by (simp add: spec_parts_def upt_rec)

lemma numParts_11:
  "sint (ucast ((11 * 1024 * 1024 :: 64 word) div kS3MultiPartCopyPartSize) :: 32 word) = 2"
  by (simp add: kS3MultiPartCopyPartSize_def)

lemma Stat_sized_source:
  "Stat (sized_source L) ''s3://b/src'' FileStatistics_new w =
     (Inr \<lparr>stat_length = L, mtime_nsec = times_1e6 0, is_directory = False\<rparr>, w)"
  by (simp add: Stat_def parse_defs sized_source_def FileStatistics_new_def)

lemma attempts_logged:
  "copy_part_attempts logging_copies tb tk u partNumber 3 sp parts w =
     (let startPos = (word_of_int (partNumber - 1) :: uint64) * kS3MultiPartCopyPartSize;
          endPos = startPos + kS3MultiPartCopyPartSize - 1;
          r = \<lparr>TargetBucket = tb, TargetKey = tk, CopySource = sp,
               CopySourceRange = ''bytes='' @ dec (unat startPos) @ dec (unat startPos) @ ''-'' @
                  dec (unat endPos),
               PartNumber = partNumber, UploadId = u\<rparr>;
          p = \<lparr>CompletedPartNumber = partNumber, ETag = ''etag''\<rparr>
      in ((None, sp, parts @ [p, p, p]), w @ [r, r, r]))"
  by (simp add: numeral_3_eq_3 logging_copies_def Let_def)

lemma range0:
  "''bytes='' @ dec (unat ((word_of_int (0 - 1) :: uint64) * kS3MultiPartCopyPartSize)) @
     dec (unat ((word_of_int (0 - 1) :: uint64) * kS3MultiPartCopyPartSize)) @ ''-'' @
     dec (unat ((word_of_int (0 - 1) :: uint64) * kS3MultiPartCopyPartSize +
                kS3MultiPartCopyPartSize - 1))
   = ''bytes=1844674407370430873618446744073704308736-18446744073709551615''"
  by (simp add: kS3MultiPartCopyPartSize_def dec.simps unsigned_minus_1_eq_mask
        mask_eq_exp_minus_1)

lemma range1:
  "''bytes='' @ dec (unat ((word_of_int (1 - 1) :: uint64) * kS3MultiPartCopyPartSize)) @
     dec (unat ((word_of_int (1 - 1) :: uint64) * kS3MultiPartCopyPartSize)) @ ''-'' @
     dec (unat ((word_of_int (1 - 1) :: uint64) * kS3MultiPartCopyPartSize +
                kS3MultiPartCopyPartSize - 1))
   = ''bytes=00-5242879''"
  by (simp add: kS3MultiPartCopyPartSize_def dec.simps)

lemma copy_parts_two:
  "copy_parts logging_copies tb tk u 0 2 sp [] [] =
     (None,
      [\<lparr>TargetBucket = tb, TargetKey = tk, CopySource = sp,
        CopySourceRange = ''bytes=1844674407370430873618446744073704308736-18446744073709551615'',
        PartNumber = 0, UploadId = u\<rparr>,
       \<lparr>TargetBucket = tb, TargetKey = tk, CopySource = sp,
        CopySourceRange = ''bytes=1844674407370430873618446744073704308736-18446744073709551615'',
        PartNumber = 0, UploadId = u\<rparr>,
       \<lparr>TargetBucket = tb, TargetKey = tk, CopySource = sp,
        CopySourceRange = ''bytes=1844674407370430873618446744073704308736-18446744073709551615'',
        PartNumber = 0, UploadId = u\<rparr>,
       \<lparr>TargetBucket = tb, TargetKey = tk, CopySource = sp,
        CopySourceRange = ''bytes=00-5242879'', PartNumber = 1, UploadId = u\<rparr>,
       \<lparr>TargetBucket = tb, TargetKey = tk, CopySource = sp,
        CopySourceRange = ''bytes=00-5242879'', PartNumber = 1, UploadId = u\<rparr>,
       \<lparr>TargetBucket = tb, TargetKey = tk, CopySource = sp,
        CopySourceRange = ''bytes=00-5242879'', PartNumber = 1, UploadId = u\<rparr>])"
proof -
  have c: "CompleteMultipartUpload logging_copies tb tk u ps w = (Success (), w)" for ps w
    by (simp add: logging_copies_def)
  have s2: "copy_parts logging_copies tb tk u 2 2 sp ps w = (None, w)" for ps w
    by (subst copy_parts.simps) simp
  have s1: "copy_parts logging_copies tb tk u 1 2 sp ps w =
      (None, w @ replicate 3 \<lparr>TargetBucket = tb, TargetKey = tk, CopySource = sp,
        CopySourceRange = ''bytes=00-5242879'', PartNumber = 1, UploadId = u\<rparr>)" for ps w
    by (subst copy_parts.simps)
       (simp only: attempts_logged Let_def range1 c split: prod.splits, simp add: numeral_3_eq_3 s2)
  show ?thesis
    by (subst copy_parts.simps)
       (simp only: attempts_logged Let_def range0 c split: prod.splits, simp add: numeral_3_eq_3 s1)
qed

text \<open>
  Claim C2, on the code. For an 11 MiB source the specification asks for three part copies,
  numbered 1, 2, 3, of the byte ranges 0-5242879, 5242880-10485759 and 10485760-11534335
  (\<open>spec_parts\<close>). \<open>MultiPartCopy\<close> computes \<open>11 MiB / 5 MiB = 2\<close> parts and numbers them 0
  and 1; with every request succeeding it issues each part copy three times, with the
  ranges printed below (the start position of part 0 wraps around in \<open>size_t\<close>, and each
  range prints its start twice), never copies the last 1 MiB, and reaches the end of the
  function without returning a status.
\<close>

theorem MultiPartCopy_11MiB_parts:
  "fst (MultiPartCopy (sized_source (11 * 1024 * 1024)) logging_copies
          ''s3://b/src'' ''b/src'' ''b'' ''dst'' []) = None \<and>
   map (\<lambda>r. (PartNumber r, CopySourceRange r))
     (snd (MultiPartCopy (sized_source (11 * 1024 * 1024)) logging_copies
             ''s3://b/src'' ''b/src'' ''b'' ''dst'' [])) =
     [(0, ''bytes=1844674407370430873618446744073704308736-18446744073709551615''),
      (0, ''bytes=1844674407370430873618446744073704308736-18446744073709551615''),
      (0, ''bytes=1844674407370430873618446744073704308736-18446744073709551615''),
      (1, ''bytes=00-5242879''), (1, ''bytes=00-5242879''), (1, ''bytes=00-5242879'')] \<and>
   spec_parts (11 * 1024 * 1024) (unat kS3MultiPartCopyPartSize) =
     [(1, 0, 5242879), (2, 5242880, 10485759), (3, 10485760, 11534335)]"
proof -
  have m: "MultiPartCopy (sized_source (11 * 1024 * 1024)) logging_copies
          ''s3://b/src'' ''b/src'' ''b'' ''dst'' [] =
        copy_parts logging_copies ''b'' ''dst'' ''upload-id'' 0 2 ''b/src'' [] []"
  proof -
    have c: "CreateMultipartUpload logging_copies ''b'' ''dst'' [] = (Success ''upload-id'', [])"
      by (simp add: logging_copies_def)
    show ?thesis
      by (simp add: MultiPartCopy_def c Stat_sized_source kS3MultiPartCopyPartSize_def)
  qed
  have k: "unat kS3MultiPartCopyPartSize = 5 * 1024 * 1024"
    by (simp add: kS3MultiPartCopyPartSize_def)
  show ?thesis
    by (simp only: m copy_parts_two k spec_parts_11) simp
qed



end
